theory Spec2Isabelle
  imports Complex_Main
begin

section \<open>JavaScript string operations used by the program\<close>

text \<open>
  A string is the list of the bytes of its UTF-8 encoding, which is how the text of
  \<^verbatim>\<open>config.txt\<close> and the output of \<^verbatim>\<open>tasklist\<close> reach the program. Every text the
  program searches for or splits at is ASCII, and an ASCII byte never occurs inside the
  encoding of another character, so searching, splitting and slicing at a position
  found agree with the operations of JavaScript on the decoded text.

  White space is what \<^verbatim>\<open>trim\<close>, \<^verbatim>\<open>\s\<close> and \<^verbatim>\<open>parseInt\<close> skip: the code points of
  ECMAScript's WhiteSpace and LineTerminator, each as its encoding. These are U+0009 to
  U+000D, U+0020, U+00A0, U+1680, U+2000 to U+200A, U+2028, U+2029, U+202F, U+205F,
  U+3000 and U+FEFF (the byte order mark). Each encoding starts with a byte that begins
  a character and none is a prefix or a suffix of another, so a match of the bytes is a
  match of the character.
\<close>

definition white_space :: "string list" where
  "white_space =
     map (\<lambda>b. [b]) [CHR 0x09, CHR 0x0A, CHR 0x0B, CHR 0x0C, CHR 0x0D, CHR 0x20] @
     [[CHR 0xC2, CHR 0xA0], [CHR 0xE1, CHR 0x9A, CHR 0x80]] @
     map (\<lambda>b. [CHR 0xE2, CHR 0x80, b])
       [CHR 0x80, CHR 0x81, CHR 0x82, CHR 0x83, CHR 0x84, CHR 0x85, CHR 0x86, CHR 0x87,
        CHR 0x88, CHR 0x89, CHR 0x8A, CHR 0xA8, CHR 0xA9, CHR 0xAF] @
     [[CHR 0xE2, CHR 0x81, CHR 0x9F], [CHR 0xE3, CHR 0x80, CHR 0x80],
      [CHR 0xEF, CHR 0xBB, CHR 0xBF]]"

text \<open>
  \<^verbatim>\<open>toLowerCase\<close> and \<^verbatim>\<open>toUpperCase\<close> on the ASCII letters. Outside ASCII only U+0130
  and U+212A have a lower case with an ASCII letter in it (\<^verbatim>\<open>i\<close> followed by a combining
  dot, and \<^verbatim>\<open>k\<close>), and neither produces one of the texts the program looks for in a
  lower-cased string; the program upper-cases only its own method names.
\<close>

definition lower_char :: "char \<Rightarrow> char" where
  "lower_char c = (let n = (of_char c :: nat) in if 65 \<le> n \<and> n \<le> 90 then char_of (n + 32) else c)"

definition toLowerCase :: "string \<Rightarrow> string" where
  "toLowerCase s = map lower_char s"

definition toUpperCase :: "string \<Rightarrow> string" where
  "toUpperCase s =
     map (\<lambda>c. let n = (of_char c :: nat) in if 97 \<le> n \<and> n \<le> 122 then char_of (n - 32) else c) s"

definition startsWith :: "string \<Rightarrow> string \<Rightarrow> bool" where
  "startsWith s t \<longleftrightarrow> take (length t) s = t"

fun includes_str :: "string \<Rightarrow> string \<Rightarrow> bool" where
  "includes_str [] t = (t = [])"
| "includes_str (c # s) t = (startsWith (c # s) t \<or> includes_str s t)"

text \<open>\<^verbatim>\<open>s.split(d)\<close> for a one-character separator: never the empty list.\<close>

fun split_char :: "char \<Rightarrow> string \<Rightarrow> string list" where
  "split_char d [] = [[]]"
| "split_char d (c # s) =
     (if c = d then [] # split_char d s
      else (case split_char d s of [] \<Rightarrow> [[c]] | x # xs \<Rightarrow> (c # x) # xs))"

text \<open>The pattern of a list that the string starts with, if any.\<close>

definition match_at :: "string list \<Rightarrow> string \<Rightarrow> string option" where
  "match_at pats s = find (\<lambda>w. w \<noteq> [] \<and> startsWith s w) pats"

text \<open>Removing patterns from the front for as long as one matches.\<close>

function strip_leading :: "string list \<Rightarrow> string \<Rightarrow> string" where
  "strip_leading pats s =
     (case match_at pats s of
        None \<Rightarrow> s
      | Some w \<Rightarrow> strip_leading pats (drop (length w) s))"
  by pat_completeness auto
termination
proof (relation "measure (\<lambda>(pats, s). length s)")
  show "wf (measure (\<lambda>(pats :: string list, s :: string). length s))"
    by simp
next
  fix pats :: "string list" and s w :: string
  assume "match_at pats s = Some w"
  then have w: "w \<noteq> []" "take (length w) s = w"
    by (auto simp: match_at_def startsWith_def find_Some_iff)
  have "length (take (length w) s) = length w"
    using w(2) by simp
  then have "length w \<le> length s"
    by simp
  moreover have "0 < length w"
    using w(1) by simp
  ultimately have "length s - length w < length s"
    by arith
  then show "((pats, drop (length w) s), (pats, s)) \<in> measure (\<lambda>(pats, s). length s)"
    by simp
qed

declare strip_leading.simps [simp del]

text \<open>\<^verbatim>\<open>s.trimStart()\<close>, \<^verbatim>\<open>s.trimEnd()\<close> and \<^verbatim>\<open>s.trim()\<close>.\<close>

definition trimStart :: "string \<Rightarrow> string" where
  "trimStart s = strip_leading white_space s"

definition trimEnd :: "string \<Rightarrow> string" where
  "trimEnd s = rev (strip_leading (map rev white_space) (rev s))"

definition trim :: "string \<Rightarrow> string" where
  "trim s = trimEnd (trimStart s)"

text \<open>\<^verbatim>\<open>s.split(/\s+/)\<close>: a run of white space is one separator.\<close>

function split_ws :: "string \<Rightarrow> string list" where
  "split_ws [] = [[]]"
| "split_ws (c # s) =
     (case match_at white_space (c # s) of
        Some w \<Rightarrow> [] # split_ws (trimStart (drop (length w) (c # s)))
      | None \<Rightarrow> (case split_ws s of [] \<Rightarrow> [[c]] | x # xs \<Rightarrow> (c # x) # xs))"
  by pat_completeness auto
termination
proof (relation "measure length")
  show "wf (measure (length :: string \<Rightarrow> nat))"
    by simp
next
  fix c :: char and s w :: string
  assume m: "match_at white_space (c # s) = Some w"
  have shorter: "length (strip_leading pats t) \<le> length t" for pats t
  proof (induction pats t rule: strip_leading.induct)
    case (1 pats t)
    show ?case
    proof (cases "match_at pats t")
      case None
      then show ?thesis
        by (subst strip_leading.simps) simp
    next
      case (Some v)
      then show ?thesis
        using "1.IH" [OF Some] by (subst strip_leading.simps) simp
    qed
  qed
  have w: "w \<noteq> []"
    using m by (auto simp: match_at_def find_Some_iff)
  have "length (trimStart (drop (length w) (c # s))) \<le> length (drop (length w) (c # s))"
    unfolding trimStart_def by (rule shorter)
  also have "\<dots> < length (c # s)"
    using w by simp
  finally show "(trimStart (drop (length w) (c # s)), c # s) \<in> measure length"
    by simp
next
  fix c :: char and s :: string
  show "(s, c # s) \<in> measure length"
    by simp
qed

text \<open>\<^verbatim>\<open>parts.join(sep)\<close>.\<close>

fun join :: "string \<Rightarrow> string list \<Rightarrow> string" where
  "join sep [] = []"
| "join sep [x] = x"
| "join sep (x # y # ys) = x @ sep @ join sep (y # ys)"

text \<open>\<^verbatim>\<open>s.indexOf(c)\<close>, with \<open>None\<close> for \<^verbatim>\<open>-1\<close>.\<close>

fun indexOf :: "string \<Rightarrow> char \<Rightarrow> nat option" where
  "indexOf [] d = None"
| "indexOf (c # s) d = (if c = d then Some 0 else map_option Suc (indexOf s d))"

text \<open>\<^verbatim>\<open>s.replace(a, b)\<close> with a string pattern: the first occurrence only.\<close>

fun replace_first :: "string \<Rightarrow> string \<Rightarrow> string \<Rightarrow> string" where
  "replace_first [] a b = (if a = [] then b else [])"
| "replace_first (c # s) a b =
     (if startsWith (c # s) a then b @ drop (length a) (c # s) else c # replace_first s a b)"

subsection \<open>parseInt\<close>

text \<open>
  \<^verbatim>\<open>parseInt(string, radix)\<close> of ECMAScript: leading white space is skipped, a sign is
  read, with no radix (or radix 16) a prefix \<^verbatim>\<open>0x\<close> selects base 16, and the longest
  prefix of digits of the base is the value; no digit at all is \<^verbatim>\<open>NaN\<close>, here \<open>None\<close>.
  The result is a Number: the double nearest to the value, ties to the even significand
  (ECMAScript leaves the digits after the twentieth to the implementation; the engine
  of Electron rounds correctly). A double that is an integer is that integer here, and
  the integer \<open>2 ^ 1024\<close>, which is above every finite double and is itself not the
  result of any rounding, stands for \<^verbatim>\<open>Infinity\<close>: the program only compares these
  numbers, and every comparison comes out as in JavaScript.
\<close>

function bit_length :: "int \<Rightarrow> nat" where
  "bit_length n = (if n \<le> 0 then 0 else Suc (bit_length (n div 2)))"
  by pat_completeness auto
termination
  by (relation "measure nat") auto

declare bit_length.simps [simp del]

definition to_double :: "int \<Rightarrow> int" where
  "to_double n =
     (let m = \<bar>n\<bar>;
          v = (if m < 2 ^ 53 then m
               else
                 let e = bit_length m - 53;
                     q = m div 2 ^ e;
                     r = m mod 2 ^ e;
                     q' = (if 2 * r > 2 ^ e \<or> (2 * r = 2 ^ e \<and> odd q) then q + 1 else q)
                 in min (q' * 2 ^ e) (2 ^ 1024))
      in if n < 0 then - v else v)"

definition digit_val :: "char \<Rightarrow> nat option" where
  "digit_val c =
     (let n = (of_char c :: nat) in
      if 48 \<le> n \<and> n \<le> 57 then Some (n - 48)
      else if 97 \<le> n \<and> n \<le> 122 then Some (n - 87)
      else if 65 \<le> n \<and> n \<le> 90 then Some (n - 55)
      else None)"

definition is_digit :: "nat \<Rightarrow> char \<Rightarrow> bool" where
  "is_digit r c \<longleftrightarrow> (case digit_val c of None \<Rightarrow> False | Some d \<Rightarrow> d < r)"

definition digits_value :: "nat \<Rightarrow> string \<Rightarrow> int" where
  "digits_value r ds = foldl (\<lambda>acc c. acc * int r + int (the (digit_val c))) 0 ds"

definition parse_digits :: "nat \<Rightarrow> string \<Rightarrow> int option" where
  "parse_digits r s =
     (let z = takeWhile (is_digit r) s in if z = [] then None else Some (digits_value r z))"

definition parseInt :: "string \<Rightarrow> nat option \<Rightarrow> int option" where
  "parseInt str radix =
     (let s = trimStart str;
          neg = (case s of c # _ \<Rightarrow> c = CHR ''-'' | [] \<Rightarrow> False);
          s1 = (case s of c # rest \<Rightarrow> if c = CHR ''+'' \<or> c = CHR ''-'' then rest else s | [] \<Rightarrow> s);
          r0 = (case radix of None \<Rightarrow> 0 | Some r \<Rightarrow> r)
      in if r0 \<noteq> 0 \<and> (r0 < 2 \<or> 36 < r0) then None
         else
           let strip = (r0 = 0 \<or> r0 = 16);
               hex = (strip \<and> (startsWith s1 ''0x'' \<or> startsWith s1 ''0X''));
               r = (if hex then 16 else if r0 = 0 then 10 else r0);
               s2 = (if hex then drop 2 s1 else s1)
           in map_option (\<lambda>v. to_double (if neg then - v else v)) (parse_digits r s2))"

section \<open>Process sampler (main.js)\<close>

text \<open>
  The callback of \<^verbatim>\<open>exec\<close> receives either an error or the standard output of the
  query. Both samplers resolve their promise on every path and never reject; the model
  is the resolved value as a function of what \<^verbatim>\<open>exec\<close> delivered. The messages
  written with \<^verbatim>\<open>console.error\<close> do not influence the value and are left out.
\<close>

datatype exec_result = ExecError int string | ExecOk string

definition tasklist_row :: "string \<Rightarrow> string option" where
  "tasklist_row stdout =
     find (\<lambda>l. includes_str (toLowerCase l) ''zalocall.exe'') (split_char CHR 0x0A stdout)"

definition memUsageStr :: "string \<Rightarrow> string" where
  "memUsageStr line = join '' '' (drop 4 (split_ws (trim line)))"

definition strip_comma_K :: "string \<Rightarrow> string" where
  "strip_comma_K s = filter (\<lambda>c. c \<noteq> CHR '','' \<and> c \<noteq> CHR ''K'' \<and> c \<noteq> CHR ''k'') s"

definition checkZaloMemory :: "exec_result \<Rightarrow> int" where
  "checkZaloMemory r =
     (case r of
        ExecError code msg \<Rightarrow> 0
      | ExecOk stdout \<Rightarrow>
          if split_char CHR 0x0A stdout = [] then 0
          else (case tasklist_row stdout of
                  None \<Rightarrow> 0
                | Some line \<Rightarrow>
                    (case parseInt (strip_comma_K (memUsageStr line)) None of
                       None \<Rightarrow> 0
                     | Some memKB \<Rightarrow> memKB)))"

text \<open>
  \<^verbatim>\<open>checkZaloCPU\<close> reads the second line of the \<^verbatim>\<open>typeperf\<close> output.
  \<^verbatim>\<open>parseFloat\<close> is a parameter (\<open>None\<close> is \<^verbatim>\<open>NaN\<close>); a missing second field is
  \<^verbatim>\<open>parseFloat(undefined)\<close>, which is \<^verbatim>\<open>NaN\<close>, and \<^verbatim>\<open>NaN || 0\<close> is \<open>0\<close>.
\<close>

definition typeperf_lines :: "string \<Rightarrow> string list" where
  "typeperf_lines stdout = split_char CHR 0x0A (trim stdout)"

definition cpu_parts :: "string \<Rightarrow> string list" where
  "cpu_parts stdout =
     split_char CHR '','' (filter (\<lambda>c. c \<noteq> CHR 0x22) (typeperf_lines stdout ! 1))"

definition checkZaloCPU :: "(string \<Rightarrow> real option) \<Rightarrow> exec_result \<Rightarrow> real" where
  "checkZaloCPU parseFloat r =
     (case r of
        ExecError code msg \<Rightarrow> 0
      | ExecOk stdout \<Rightarrow>
          if 3 \<le> length (typeperf_lines stdout) then
            (case cpu_parts stdout of
               p0 # p1 # ps \<Rightarrow> (case parseFloat p1 of None \<Rightarrow> 0 | Some cpu \<Rightarrow> cpu)
             | _ \<Rightarrow> 0)
          else 0)"

section \<open>Call-state detector (main.js)\<close>

text \<open>
  \<^verbatim>\<open>checkZaloCallStatusMemory\<close> awaits the sampler and compares the value with the
  global \<^verbatim>\<open>MEMORY_CALL_THRESHOLD_KB\<close>. The model takes the global and the value the
  awaited \<^verbatim>\<open>checkZaloMemory()\<close> resolved to.
\<close>

record call_status =
  isInCall :: bool
  memory :: int

definition checkZaloCallStatusMemory :: "int \<Rightarrow> int \<Rightarrow> call_status" where
  "checkZaloCallStatusMemory MEMORY_CALL_THRESHOLD_KB mem =
     \<lparr> isInCall = (mem > MEMORY_CALL_THRESHOLD_KB), memory = mem \<rparr>"

section \<open>File system\<close>

text \<open>
  The part of the file system the handlers touch: a map from paths to entries. An entry
  records the size and whether \<^verbatim>\<open>statSync\<close>, \<^verbatim>\<open>readFileSync\<close> and \<^verbatim>\<open>unlinkSync\<close>
  raise on it (a locked or protected file), since the source catches each of these.
  Errors are values: \<open>Inl\<close> is a raised exception.
\<close>

datatype js_error = JsError (err_code: "string option") (err_message: string)

record file_entry =
  fsize :: nat
  stat_throws :: bool
  read_throws :: bool
  unlink_throws :: bool

type_synonym filesystem = "string \<Rightarrow> file_entry option"

definition existsSync :: "filesystem \<Rightarrow> string \<Rightarrow> bool" where
  "existsSync fs p \<longleftrightarrow> fs p \<noteq> None"

definition statSync :: "filesystem \<Rightarrow> string \<Rightarrow> js_error + nat" where
  "statSync fs p =
     (case fs p of
        None \<Rightarrow> Inl (JsError (Some ''ENOENT'') ''no such file or directory'')
      | Some e \<Rightarrow>
          if stat_throws e then Inl (JsError (Some ''EPERM'') ''operation not permitted'')
          else Inr (fsize e))"

definition readFileSync :: "filesystem \<Rightarrow> string \<Rightarrow> js_error + nat" where
  "readFileSync fs p =
     (case fs p of
        None \<Rightarrow> Inl (JsError (Some ''ENOENT'') ''no such file or directory'')
      | Some e \<Rightarrow>
          if read_throws e then Inl (JsError (Some ''EPERM'') ''operation not permitted'')
          else Inr (fsize e))"

definition unlinkSync :: "filesystem \<Rightarrow> string \<Rightarrow> js_error + filesystem" where
  "unlinkSync fs p =
     (case fs p of
        None \<Rightarrow> Inl (JsError (Some ''ENOENT'') ''no such file or directory'')
      | Some e \<Rightarrow>
          if unlink_throws e then Inl (JsError (Some ''EPERM'') ''operation not permitted'')
          else Inr (fs(p := None)))"

text \<open>
  \<^verbatim>\<open>writeFileSync\<close> and \<^verbatim>\<open>mkdirSync\<close> fail when the environment says so (the first
  argument); a written file keeps the protection of the entry it replaces.
\<close>

definition writeFileSync ::
  "js_error option \<Rightarrow> filesystem \<Rightarrow> string \<Rightarrow> nat \<Rightarrow> js_error + filesystem" where
  "writeFileSync failure fs p n =
     (case failure of
        Some err \<Rightarrow> Inl err
      | None \<Rightarrow>
          Inr (fs(p \<mapsto> (case fs p of
                            Some e \<Rightarrow> e\<lparr>fsize := n\<rparr>
                          | None \<Rightarrow> \<lparr>fsize = n, stat_throws = False, read_throws = False,
                                       unlink_throws = False\<rparr>))))"

definition mkdirSync :: "js_error option \<Rightarrow> filesystem \<Rightarrow> string \<Rightarrow> js_error + filesystem" where
  "mkdirSync failure fs p =
     (case failure of
        Some err \<Rightarrow> Inl err
      | None \<Rightarrow>
          Inr (fs(p \<mapsto> \<lparr>fsize = 0, stat_throws = False, read_throws = True,
                           unlink_throws = True\<rparr>)))"

text \<open>\<^verbatim>\<open>path.join\<close> of two segments, without the normalisation of \<^verbatim>\<open>.\<close> and \<^verbatim>\<open>..\<close>.\<close>

definition path_join :: "string \<Rightarrow> string \<Rightarrow> string" where
  "path_join a b = a @ ''/'' @ b"

section \<open>Conversion stage (main.js)\<close>

text \<open>
  \<^verbatim>\<open>exec\<close> runs a shell command: the environment decides whether it reports an error
  and what the file system looks like when the callback runs.
\<close>

type_synonym shell = "string \<Rightarrow> filesystem \<Rightarrow> js_error option \<times> filesystem"

definition ffmpeg_command :: "string \<Rightarrow> string \<Rightarrow> string \<Rightarrow> string" where
  "ffmpeg_command FFMPEG_PATH inputPath outputPath =
     [CHR 0x22] @ FFMPEG_PATH @ [CHR 0x22] @ '' -i '' @ [CHR 0x22] @ inputPath @ [CHR 0x22] @
     '' -vn -ar 44100 -ac 2 -b:a 192k '' @ [CHR 0x22] @ outputPath @ [CHR 0x22]"

text \<open>
  The result is the settled promise (\<open>Inl\<close> rejected, \<open>Inr\<close> resolved) and the file
  system afterwards. Log messages are left out.
\<close>

definition convertToMP3 ::
  "string \<Rightarrow> shell \<Rightarrow> filesystem \<Rightarrow> string \<Rightarrow> string \<Rightarrow> (js_error + string) \<times> filesystem" where
  "convertToMP3 FFMPEG_PATH exec fs inputPath outputPath =
     (if \<not> existsSync fs inputPath then
        (Inl (JsError None (''Input file not found: '' @ inputPath)), fs)
      else
        (case statSync fs inputPath of
           Inl err \<Rightarrow> (Inl err, fs)
         | Inr inputSize \<Rightarrow>
             if inputSize = 0 then (Inl (JsError None ''Input file is empty''), fs)
             else if \<not> existsSync fs FFMPEG_PATH then
               (Inl (JsError None (''FFmpeg not found: '' @ FFMPEG_PATH)), fs)
             else
               (case exec (ffmpeg_command FFMPEG_PATH inputPath outputPath) fs of
                  (Some error, fs') \<Rightarrow> (Inl error, fs')
                | (None, fs') \<Rightarrow>
                    if existsSync fs' outputPath then
                      (case statSync fs' outputPath of
                         Inl err \<Rightarrow> (Inl err, fs')
                       | Inr outputSize \<Rightarrow>
                           if outputSize = 0 then (Inl (JsError None ''Output file is empty''), fs')
                           else (Inr outputPath, fs'))
                    else (Inl (JsError None ''Output file was not created''), fs'))))"

section \<open>The save-file handler (main.js)\<close>

text \<open>
  What the handler takes from its environment: the configured directories, the date
  folder the clock gives, the length of the buffer \<^verbatim>\<open>Buffer.from(_, 'base64')\<close>
  decodes, whether creating the directory or writing the file fails, the shell, and
  the formatting of the size (\<^verbatim>\<open>toFixed(2)\<close> of a quotient of doubles).
\<close>

record save_env =
  OUTPUT_DIR :: string
  FFMPEG_PATH :: string
  dateFolder :: string
  base64_length :: "string \<Rightarrow> nat"
  mkdir_failure :: "js_error option"
  write_failure :: "js_error option"
  exec :: shell
  sizeKB :: "nat \<Rightarrow> string"

record save_result =
  path :: string
  size :: string

text \<open>
  The first part of the handler, up to the verified temporary file. It returns the
  path of the temporary file and the path of the final file, or the exception raised,
  and the file system at that point.
\<close>

definition save_file_prepare ::
  "save_env \<Rightarrow> filesystem \<Rightarrow> string \<Rightarrow> string option
     \<Rightarrow> (js_error + string \<times> string) \<times> filesystem" where
  "save_file_prepare env fs filename dataUrl =
     (case dataUrl of
        None \<Rightarrow> (Inl (JsError None ''Invalid dataUrl format''), fs)
      | Some url \<Rightarrow>
          if url = [] \<or> \<not> startsWith url ''data:'' then
            (Inl (JsError None ''Invalid dataUrl format''), fs)
          else
            let dateDir = path_join (OUTPUT_DIR env) (dateFolder env) in
            (case (if \<not> existsSync fs dateDir then mkdirSync (mkdir_failure env) fs dateDir
                   else Inr fs) of
               Inl err \<Rightarrow> (Inl err, fs)
             | Inr fs1 \<Rightarrow>
                 let tempFilename = replace_first filename ''.mp3'' ''.webm'';
                     tempFilePath = path_join dateDir tempFilename
                 in (case split_char CHR '','' url of
                       u0 # base64Data # us \<Rightarrow>
                         if base64Data = [] then
                           (Inl (JsError None ''Invalid dataUrl: no base64 data found''), fs1)
                         else
                           let buffer = base64_length env base64Data in
                           if buffer = 0 then (Inl (JsError None ''Buffer is empty''), fs1)
                           else
                             (case writeFileSync (write_failure env) fs1 tempFilePath buffer of
                                Inl err \<Rightarrow> (Inl err, fs1)
                              | Inr fs2 \<Rightarrow>
                                  (case statSync fs2 tempFilePath of
                                     Inl err \<Rightarrow> (Inl err, fs2)
                                   | Inr tempSize \<Rightarrow>
                                       if tempSize = 0 then
                                         (Inl (JsError None ''Temporary file is empty''), fs2)
                                       else
                                         (Inr (tempFilePath, path_join dateDir filename), fs2)))
                     | _ \<Rightarrow> (Inl (JsError None ''Invalid dataUrl: no base64 data found''), fs1))))"

text \<open>
  The second part: conversion, removal of the temporary file, size of the result. A
  failing \<^verbatim>\<open>unlinkSync\<close> is caught on both paths and leaves the file system as it is.
\<close>

definition save_file_convert ::
  "save_env \<Rightarrow> filesystem \<Rightarrow> string \<Rightarrow> string \<Rightarrow> (js_error + save_result) \<times> filesystem" where
  "save_file_convert env fs2 tempFilePath mp3FilePath =
     (case convertToMP3 (FFMPEG_PATH env) (exec env) fs2 tempFilePath mp3FilePath of
        (Inl err, fs3) \<Rightarrow>
          (Inl err,
           if existsSync fs3 tempFilePath then
             (case unlinkSync fs3 tempFilePath of Inl e \<Rightarrow> fs3 | Inr fs4 \<Rightarrow> fs4)
           else fs3)
      | (Inr out, fs3) \<Rightarrow>
          let fs4 = (case unlinkSync fs3 tempFilePath of Inl e \<Rightarrow> fs3 | Inr fs4 \<Rightarrow> fs4) in
          (case statSync fs4 mp3FilePath of
             Inl err \<Rightarrow> (Inl err, fs4)
           | Inr n \<Rightarrow> (Inr \<lparr>path = mp3FilePath, size = sizeKB env n\<rparr>, fs4)))"

definition save_file ::
  "save_env \<Rightarrow> filesystem \<Rightarrow> string \<Rightarrow> string option \<Rightarrow> (js_error + save_result) \<times> filesystem" where
  "save_file env fs filename dataUrl =
     (case save_file_prepare env fs filename dataUrl of
        (Inl err, fs1) \<Rightarrow> (Inl err, fs1)
      | (Inr (tempFilePath, mp3FilePath), fs2) \<Rightarrow>
          save_file_convert env fs2 tempFilePath mp3FilePath)"

section \<open>JavaScript values and the API helper (main.js)\<close>

text \<open>
  The values an API response, a configuration entry or a caught exception can be.
  Numbers are integers here (a status code); an object is the list of its properties.
\<close>

datatype jsval =
    Undefined
  | Null
  | JBool bool
  | JNum int
  | JStr string
  | JObj "(string \<times> jsval) list"
  | JErr js_error

fun truthy :: "jsval \<Rightarrow> bool" where
  "truthy Undefined = False"
| "truthy Null = False"
| "truthy (JBool b) = b"
| "truthy (JNum n) = (n \<noteq> 0)"
| "truthy (JStr s) = (s \<noteq> [])"
| "truthy (JObj kvs) = True"
| "truthy (JErr e) = True"

text \<open>
  Property access \<^verbatim>\<open>v.k\<close>: a \<^verbatim>\<open>TypeError\<close> on \<^verbatim>\<open>undefined\<close> and \<^verbatim>\<open>null\<close>,
  \<^verbatim>\<open>undefined\<close> for a property the value does not have. An error object
  has a message and, when the library set one, a string code.
\<close>

fun get_prop :: "jsval \<Rightarrow> string \<Rightarrow> js_error + jsval" where
  "get_prop Undefined k =
     Inl (JsError None (''TypeError: Cannot read properties of undefined (reading '' @ k @ '')''))"
| "get_prop Null k =
     Inl (JsError None (''TypeError: Cannot read properties of null (reading '' @ k @ '')''))"
| "get_prop (JObj kvs) k = Inr (case map_of kvs k of None \<Rightarrow> Undefined | Some v \<Rightarrow> v)"
| "get_prop (JErr e) k =
     Inr (if k = ''message'' then JStr (err_message e)
          else if k = ''code'' then (case err_code e of None \<Rightarrow> Undefined | Some c \<Rightarrow> JStr c)
          else Undefined)"
| "get_prop v k = Inr Undefined"

text \<open>Optional chaining \<^verbatim>\<open>v?.k\<close>.\<close>

definition optional_prop :: "jsval \<Rightarrow> string \<Rightarrow> jsval" where
  "optional_prop v k = (case get_prop v k of Inl err \<Rightarrow> Undefined | Inr x \<Rightarrow> x)"

definition digit_char :: "nat \<Rightarrow> char" where
  "digit_char d = char_of (48 + d)"

fun show_nat :: "nat \<Rightarrow> string" where
  "show_nat n = (if n < 10 then [digit_char n] else show_nat (n div 10) @ [digit_char (n mod 10)])"

declare show_nat.simps [simp del]

definition show_int :: "int \<Rightarrow> string" where
  "show_int i = (if i < 0 then CHR ''-'' # show_nat (nat (- i)) else show_nat (nat i))"

text \<open>A value inside a template literal.\<close>

fun js_to_string :: "jsval \<Rightarrow> string" where
  "js_to_string Undefined = ''undefined''"
| "js_to_string Null = ''null''"
| "js_to_string (JBool b) = (if b then ''true'' else ''false'')"
| "js_to_string (JNum n) = show_int n"
| "js_to_string (JStr s) = s"
| "js_to_string (JObj kvs) = ''[object Object]''"
| "js_to_string (JErr e) = ''Error: '' @ err_message e"

text \<open>
  The request body: \<^verbatim>\<open>null\<close> (the default), a value sent as JSON, or a
  \<^verbatim>\<open>Buffer\<close> of so many bytes. No caller passes a stream.
\<close>

datatype req_data = NoData | JsonData jsval | BufferData nat

fun is_buffer :: "req_data \<Rightarrow> bool" where
  "is_buffer (BufferData n) = True"
| "is_buffer d = False"

fun data_truthy :: "req_data \<Rightarrow> bool" where
  "data_truthy NoData = False"
| "data_truthy (JsonData v) = truthy v"
| "data_truthy (BufferData n) = True"

record axios_config =
  req_method :: string
  req_url :: string
  req_headers :: "(string \<times> jsval) list"
  req_timeout :: int
  req_unlimited_body :: bool
  req_data :: "req_data option"

text \<open>
  \<^verbatim>\<open>axios(config)\<close>: the environment answers with the response body, or raises (a
  transport error, a timeout, a status outside 2xx).
\<close>

type_synonym axios = "axios_config \<Rightarrow> js_error + jsval"

definition header_lookup :: "(string \<times> jsval) list \<Rightarrow> string \<Rightarrow> jsval" where
  "header_lookup hs k = (case map_of hs k of None \<Rightarrow> Undefined | Some v \<Rightarrow> v)"

text \<open>
  The body of the \<^verbatim>\<open>try\<close> block of \<^verbatim>\<open>callApi\<close>: \<open>Inl\<close> is an exception raised
  inside it, \<open>Inr\<close> the value of its \<^verbatim>\<open>return\<close>. \<^verbatim>\<open>apiUrl\<close> is \<open>None\<close> when the
  configuration has no such entry.
\<close>

definition callApi_try ::
  "axios \<Rightarrow> string option \<Rightarrow> jsval \<Rightarrow> string \<Rightarrow> req_data \<Rightarrow> (string \<times> jsval) list \<Rightarrow> int
     \<Rightarrow> js_error + jsval" where
  "callApi_try ax apiUrl endpoint method data customHeaders timeout =
     (case (if truthy endpoint then
              (case endpoint of
                 JStr e \<Rightarrow> Inr (startsWith e ''http://'' \<or> startsWith e ''https://'')
               | _ \<Rightarrow> Inl (JsError None ''TypeError: endpoint.startsWith is not a function''))
            else Inr False) of
        Inl err \<Rightarrow> Inl err
      | Inr isFullUrl \<Rightarrow>
          let finalUrl =
                (if isFullUrl then js_to_string endpoint
                 else (case apiUrl of None \<Rightarrow> ''undefined'' | Some u \<Rightarrow> u) @ ''/'' @
                      js_to_string endpoint)
          in if \<not> isFullUrl \<and>
                (case apiUrl of None \<Rightarrow> True | Some u \<Rightarrow> u = [] \<or> includes_str u ''undefined'')
             then Inr (JBool False)
             else
               let headers =
                     customHeaders @
                     (if \<not> truthy (header_lookup customHeaders ''Content-Type'') \<and>
                         \<not> is_buffer data \<and> data \<noteq> NoData
                      then [(''Content-Type'', JStr ''application/json'')] else []);
                   m = toUpperCase method;
                   config =
                     \<lparr> req_method = m, req_url = finalUrl, req_headers = headers,
                       req_timeout = timeout, req_unlimited_body = is_buffer data,
                       req_data =
                         (if data_truthy data \<and> (m = ''POST'' \<or> m = ''PUT'' \<or> m = ''PATCH'')
                          then Some data else None) \<rparr>
               in (case ax config of Inl err \<Rightarrow> Inl err | Inr response_data \<Rightarrow> Inr response_data))"

text \<open>
  \<^verbatim>\<open>callApi\<close> as the settled promise: \<open>Inl\<close> would be a rejection. The \<^verbatim>\<open>catch\<close>
  clause returns the caught exception as the result.
\<close>

definition callApi ::
  "axios \<Rightarrow> string option \<Rightarrow> jsval \<Rightarrow> string \<Rightarrow> req_data \<Rightarrow> (string \<times> jsval) list \<Rightarrow> int
     \<Rightarrow> js_error + jsval" where
  "callApi ax apiUrl endpoint method data customHeaders timeout =
     (case callApi_try ax apiUrl endpoint method data customHeaders timeout of
        Inl error \<Rightarrow> Inr (JErr error)
      | Inr v \<Rightarrow> Inr v)"

section \<open>The upload-file handler (main.js)\<close>

definition contentTypeMap :: "(string \<times> string) list" where
  "contentTypeMap =
     [(''.mp3'', ''audio/mpeg''), (''.webm'', ''audio/webm''), (''.jpg'', ''image/jpeg''),
      (''.jpeg'', ''image/jpeg''), (''.png'', ''image/png'')]"

text \<open>
  \<^verbatim>\<open>path.basename\<close> and \<^verbatim>\<open>path.extname\<close> for a path that names a file (no trailing
  separator); both separators count, as on Windows.
\<close>

definition basename :: "string \<Rightarrow> string" where
  "basename p = rev (takeWhile (\<lambda>c. c \<noteq> CHR ''/'' \<and> c \<noteq> CHR 0x5C) (rev p))"

definition extname :: "string \<Rightarrow> string" where
  "extname p =
     (let b = basename p;
          k = length (takeWhile (\<lambda>c. c \<noteq> CHR ''.'') (rev b))
      in if k = length b \<or> Suc k = length b \<or> b = ''..'' then [] else drop (length b - Suc k) b)"

record app_config =
  API_UPLOAD_URL :: "string option"
  UPLOAD_API :: jsval
  API_URL :: "string option"
  SAVE_HISTORY_API :: jsval
  SALE_TOKEN :: jsval

text \<open>The answers of the network to the three requests of one upload, in order.\<close>

record network =
  axios_presign :: axios
  axios_put :: axios
  axios_history :: axios

record time_params =
  beginTime :: int
  endTime :: int

text \<open>
  \<^verbatim>\<open>new Date(t).toISOString()\<close> raises a \<^verbatim>\<open>RangeError\<close> outside the range of dates;
  the text of a valid date is a parameter.
\<close>

definition toISOString :: "(int \<Rightarrow> string) \<Rightarrow> int \<Rightarrow> js_error + string" where
  "toISOString iso_text t =
     (if \<bar>t\<bar> \<le> 8640000000000000 then Inr (iso_text t)
      else Inl (JsError None ''RangeError: Invalid time value''))"

text \<open>
  The handler as the settled promise and the file system afterwards: \<open>Inl\<close> is a
  rejection (the outer \<^verbatim>\<open>catch\<close> rethrows), \<open>Inr\<close> the boolean it returns. The value
  of the \<^verbatim>\<open>PUT\<close> request is awaited and dropped.
\<close>

definition upload_file ::
  "app_config \<Rightarrow> (int \<Rightarrow> string) \<Rightarrow> network \<Rightarrow> filesystem \<Rightarrow> time_params \<Rightarrow> string option
     \<Rightarrow> (js_error + bool) \<times> filesystem" where
  "upload_file cfg iso_text net fs timeParams filePath =
     (case filePath of
        None \<Rightarrow> (Inl (JsError None ''File not found: undefined''), fs)
      | Some fp \<Rightarrow>
     if fp = [] \<or> \<not> existsSync fs fp then (Inl (JsError None (''File not found: '' @ fp)), fs)
     else
       let fileName = basename fp;
           fileExtension = toLowerCase (extname fp);
           contentType =
             (case map_of contentTypeMap fileExtension of
                Some t \<Rightarrow> t
              | None \<Rightarrow> ''application/octet-stream'')
       in
       (case callApi (axios_presign net) (API_UPLOAD_URL cfg) (UPLOAD_API cfg) ''POST''
               (JsonData (JObj [(''name'', JStr fileName), (''type'', JStr contentType)]))
               [(''x-api-token'', SALE_TOKEN cfg)] 10000 of
          Inl err \<Rightarrow> (Inl err, fs)
        | Inr response \<Rightarrow>
       (case get_prop response ''code'' of
          Inl err \<Rightarrow> (Inl err, fs)
        | Inr code \<Rightarrow>
       if code \<noteq> JNum 200 then (Inr False, fs)
       else
       (case get_prop response ''data'' of
          Inl err \<Rightarrow> (Inl err, fs)
        | Inr d \<Rightarrow>
       (case get_prop d ''presignUrl'' of
          Inl err \<Rightarrow> (Inl err, fs)
        | Inr presignUrl \<Rightarrow>
       (case get_prop d ''url'' of
          Inl err \<Rightarrow> (Inl err, fs)
        | Inr url \<Rightarrow>
       (case readFileSync fs fp of
          Inl err \<Rightarrow> (Inl err, fs)
        | Inr fileBuffer \<Rightarrow>
       (case callApi (axios_put net) (Some []) presignUrl ''PUT'' (BufferData fileBuffer)
               [(''Content-Type'', JStr contentType)] 60000 of
          Inl err \<Rightarrow> (Inl err, fs)
        | Inr put_response \<Rightarrow>
       (case toISOString iso_text (beginTime timeParams) of
          Inl err \<Rightarrow> (Inl err, fs)
        | Inr begin_time \<Rightarrow>
       (case toISOString iso_text (endTime timeParams) of
          Inl err \<Rightarrow> (Inl err, fs)
        | Inr end_time \<Rightarrow>
       (case callApi (axios_history net) (API_URL cfg) (SAVE_HISTORY_API cfg) ''POST''
               (JsonData (JObj [(''begin_time'', JStr begin_time), (''end_time'', JStr end_time),
                                (''call_url'', url)]))
               [(''x-api-token'', SALE_TOKEN cfg)] 10000 of
          Inl err \<Rightarrow> (Inl err, fs)
        | Inr saveHistoryResponse \<Rightarrow>
       if \<not> truthy (optional_prop saveHistoryResponse ''success'') then (Inr False, fs)
       else
         (Inr True,
          if existsSync fs fp then
            (case unlinkSync fs fp of Inl err \<Rightarrow> fs | Inr fs' \<Rightarrow> fs')
          else fs))))))))))))"

section \<open>Hot-reloadable configuration (main.js)\<close>

text \<open>\<^verbatim>\<open>content.split(/\r?\n/)\<close>: a carriage return before a line feed belongs to the separator.\<close>

definition strip_cr :: "string \<Rightarrow> string" where
  "strip_cr l = (if l \<noteq> [] \<and> last l = CHR 0x0D then butlast l else l)"

definition split_lines :: "string \<Rightarrow> string list" where
  "split_lines content =
     (let ps = split_char CHR 0x0A content in map strip_cr (butlast ps) @ [last ps])"

text \<open>
  The body of the loop of \<^verbatim>\<open>loadConfigFiles\<close>, on the two globals it assigns:
  \<^verbatim>\<open>installThreshold\<close> and \<^verbatim>\<open>installNameCode\<close> (\<open>None\<close> is \<^verbatim>\<open>null\<close>).
\<close>

definition config_line :: "string \<Rightarrow> int option \<times> string option \<Rightarrow> int option \<times> string option" where
  "config_line line acc =
     (case acc of (thr, nc) \<Rightarrow>
      let trimmedLine = trim line in
      if trimmedLine = [] \<or> startsWith trimmedLine ''#'' then (thr, nc)
      else
        (case indexOf trimmedLine CHR ''='' of
           None \<Rightarrow> (thr, nc)
         | Some equalIndex \<Rightarrow>
             let key = trim (take equalIndex trimmedLine);
                 val = trim (drop (equalIndex + 1) trimmedLine)
             in ((if key = ''MEMORY_CALL_THRESHOLD_KB'' then
                    (case parseInt val (Some 10) of None \<Rightarrow> thr | Some parsed \<Rightarrow> Some parsed)
                  else thr),
                 (if key = ''NAME_CODE'' then Some val else nc))))"

fun config_lines :: "string list \<Rightarrow> int option \<times> string option \<Rightarrow> int option \<times> string option" where
  "config_lines [] acc = acc"
| "config_lines (line # rest) acc = config_lines rest (config_line line acc)"

definition DEFAULT_THRESHOLD :: int where
  "DEFAULT_THRESHOLD = 100000"

record main_globals =
  MEMORY_CALL_THRESHOLD_KB :: int
  installThreshold :: "int option"
  installNameCode :: "string option"

datatype config_file = Missing | Unreadable | Content string

text \<open>\<^verbatim>\<open>appConfig.MEMORY_CALL_THRESHOLD_KB || DEFAULT_THRESHOLD\<close>: an absent entry and zero are falsy.\<close>

definition fallback_threshold :: "int option \<Rightarrow> int" where
  "fallback_threshold appConfig_threshold =
     (case appConfig_threshold of
        None \<Rightarrow> DEFAULT_THRESHOLD
      | Some v \<Rightarrow> if v = 0 then DEFAULT_THRESHOLD else v)"

definition initial_globals :: "int option \<Rightarrow> main_globals" where
  "initial_globals appConfig_threshold =
     \<lparr> MEMORY_CALL_THRESHOLD_KB = fallback_threshold appConfig_threshold,
       installThreshold = None, installNameCode = None \<rparr>"

text \<open>
  A missing file skips the loop; a file that cannot be read raises inside the
  \<^verbatim>\<open>try\<close> before any assignment.
\<close>

definition loadConfigFiles :: "int option \<Rightarrow> config_file \<Rightarrow> main_globals \<Rightarrow> main_globals" where
  "loadConfigFiles appConfig_threshold file g =
     (let g1 =
            (case file of
               Content configContent \<Rightarrow>
                 (case config_lines (split_lines configContent)
                         (installThreshold g, installNameCode g) of
                    (thr, nc) \<Rightarrow> g\<lparr>installThreshold := thr, installNameCode := nc\<rparr>)
             | _ \<Rightarrow> g)
      in (case installThreshold g1 of
            Some v \<Rightarrow> g1\<lparr>MEMORY_CALL_THRESHOLD_KB := v\<rparr>
          | None \<Rightarrow>
              let previousValue = MEMORY_CALL_THRESHOLD_KB g1;
                  fallbackValue = fallback_threshold appConfig_threshold
              in if previousValue \<noteq> fallbackValue
                 then g1\<lparr>MEMORY_CALL_THRESHOLD_KB := fallbackValue\<rparr> else g1))"

text \<open>
  The main process as far as the threshold is concerned: the globals, the configuration
  file on disk, whether the five-second timer set by \<^verbatim>\<open>app.whenReady\<close> is still to
  fire, and whether the watchers of \<^verbatim>\<open>setupConfigFileWatcher\<close> are installed.
\<close>

record app =
  globals :: main_globals
  configFile :: config_file
  load_timer_pending :: bool
  file_watcher :: bool

definition app_start :: "int option \<Rightarrow> config_file \<Rightarrow> app" where
  "app_start appConfig_threshold file =
     \<lparr> globals = initial_globals appConfig_threshold, configFile = file,
       load_timer_pending = False, file_watcher = False \<rparr>"

text \<open>\<^verbatim>\<open>setupConfigFileWatcher\<close> installs the watchers; the callbacks call \<^verbatim>\<open>loadConfigFiles\<close>.\<close>

definition setupConfigFileWatcher :: "app \<Rightarrow> app" where
  "setupConfigFileWatcher a = a\<lparr>file_watcher := True\<rparr>"

text \<open>
  \<^verbatim>\<open>app.whenReady().then(...)\<close>: the call of \<^verbatim>\<open>setupConfigFileWatcher\<close> is commented
  out in the source, so the handler only arms the timer that calls
  \<^verbatim>\<open>loadConfigFiles\<close> once.
\<close>

definition whenReady :: "app \<Rightarrow> app" where
  "whenReady a = a\<lparr>load_timer_pending := True\<rparr>"

datatype app_event = TimerFires | FileWritten string | FileRemoved

fun app_step :: "int option \<Rightarrow> app \<Rightarrow> app_event \<Rightarrow> app" where
  "app_step t a TimerFires =
     (if load_timer_pending a
      then a\<lparr>globals := loadConfigFiles t (configFile a) (globals a), load_timer_pending := False\<rparr>
      else a)"
| "app_step t a (FileWritten c) =
     (let a1 = a\<lparr>configFile := Content c\<rparr>
      in if file_watcher a1 then a1\<lparr>globals := loadConfigFiles t (Content c) (globals a1)\<rparr>
         else a1)"
| "app_step t a FileRemoved =
     (let a1 = a\<lparr>configFile := Missing\<rparr>
      in if file_watcher a1 then a1\<lparr>globals := loadConfigFiles t Missing (globals a1)\<rparr>
         else a1)"

definition app_run :: "int option \<Rightarrow> app \<Rightarrow> app_event list \<Rightarrow> app" where
  "app_run t a evs = foldl (app_step t) a evs"

text \<open>The threshold a configuration file holds: what the loop finds, starting from nothing.\<close>

definition file_threshold :: "string \<Rightarrow> int option" where
  "file_threshold content = fst (config_lines (split_lines content) (None, None))"

section \<open>Audio capture pipeline (renderer.js)\<close>

text \<open>
  The module-level variables of the renderer. A chunk is the size of its blob;
  \<^verbatim>\<open>destination\<close> holds the number of sources connected to the mixing node.
  \<open>None\<close> is an unassigned or \<^verbatim>\<open>null\<close> variable.
\<close>

datatype recorder_state = Inactive | Recording | Paused

record media_recorder =
  mimeType :: string
  rec_state :: recorder_state

datatype context_state = Running | Closed

record renderer_state =
  combinedRecorder :: "media_recorder option"
  audioChunks :: "nat list"
  startTime :: "int option"
  recording :: bool
  audioContext :: "context_state option"
  destination :: "nat option"

text \<open>What a call does to the outside, in order.\<close>

datatype effect =
    LogError string
  | Invoke string
  | GetUserMediaMic
  | GetUserMediaDesktop string
  | RecorderStart string
  | RecorderStop

record desktop_source =
  source_id :: string
  source_name :: string

text \<open>
  What the capture surface answers during \<^verbatim>\<open>startRecording\<close>: the clock, whether
  creating the audio context raises, whether the microphone request raises, the answer
  to \<^verbatim>\<open>get-sources\<close>, the number of audio tracks of the desktop stream of a source (or
  the exception), which encodings the runtime supports, and whether creating or
  starting the recorder raises.
\<close>

record capture_env =
  now :: int
  audioContext_failure :: "js_error option"
  mic_failure :: "js_error option"
  get_sources :: "js_error + desktop_source list"
  desktop_audio_tracks :: "string \<Rightarrow> js_error + nat"
  isTypeSupported :: "string \<Rightarrow> bool"
  recorder_failure :: "js_error option"

definition mimeTypes :: "string list" where
  "mimeTypes = [''audio/webm;codecs=opus'', ''audio/webm'', ''audio/ogg;codecs=opus'', ''audio/mp4'']"

definition is_entire_screen :: "desktop_source \<Rightarrow> bool" where
  "is_entire_screen source \<longleftrightarrow>
     includes_str (toLowerCase (source_name source)) ''entire'' \<or>
     includes_str (toLowerCase (source_name source)) ''screen'' \<or>
     includes_str (source_id source) ''screen''"

text \<open>Step 1 of \<^verbatim>\<open>startRecording\<close>: the microphone.\<close>

definition connect_mic :: "capture_env \<Rightarrow> bool \<times> effect list" where
  "connect_mic env =
     (case mic_failure env of
        None \<Rightarrow> (True, [GetUserMediaMic])
      | Some err \<Rightarrow> (False, [GetUserMediaMic, LogError ''Microphone error:'']))"

text \<open>Step 2: the system audio of the source that looks like the whole screen.\<close>

definition connect_system :: "capture_env \<Rightarrow> bool \<times> effect list" where
  "connect_system env =
     (case get_sources env of
        Inl err \<Rightarrow> (False, [Invoke ''get-sources'', LogError ''System audio error:''])
      | Inr sources \<Rightarrow>
          (case find is_entire_screen sources of
             None \<Rightarrow> (False, [Invoke ''get-sources''])
           | Some entireScreen \<Rightarrow>
               (case desktop_audio_tracks env (source_id entireScreen) of
                  Inl err \<Rightarrow>
                    (False, [Invoke ''get-sources'', GetUserMediaDesktop (source_id entireScreen),
                             LogError ''System audio error:''])
                | Inr n \<Rightarrow>
                    (0 < n, [Invoke ''get-sources'', GetUserMediaDesktop (source_id entireScreen)]))))"

definition startRecording :: "capture_env \<Rightarrow> renderer_state \<Rightarrow> effect list \<times> renderer_state" where
  "startRecording env s =
     (if recording s then ([], s)
      else
        let s1 = s\<lparr>recording := True, audioChunks := [], startTime := Some (now env)\<rparr> in
        (case audioContext_failure env of
           Some err \<Rightarrow> ([LogError ''startRecording: Critical error:''], s1\<lparr>recording := False\<rparr>)
         | None \<Rightarrow>
             (case (connect_mic env, connect_system env) of
                ((micConnected, mic_effects), (systemConnected, system_effects)) \<Rightarrow>
                  let s2 = s1\<lparr>audioContext := Some Running,
                              destination := Some ((if micConnected then 1 else 0) +
                                                   (if systemConnected then 1 else 0))\<rparr>;
                      effects = mic_effects @ system_effects
                  in if \<not> micConnected \<and> \<not> systemConnected then
                       (effects @ [LogError ''No audio sources available!''], s2\<lparr>recording := False\<rparr>)
                     else
                       (case find (isTypeSupported env) mimeTypes of
                          None \<Rightarrow>
                            (effects @ [LogError ''No supported MIME type found!''],
                             s2\<lparr>recording := False\<rparr>)
                        | Some selectedMimeType \<Rightarrow>
                            (case recorder_failure env of
                               Some err \<Rightarrow>
                                 (effects @ [LogError ''startRecording: Critical error:''],
                                  s2\<lparr>recording := False\<rparr>)
                             | None \<Rightarrow>
                                 (effects @ [RecorderStart selectedMimeType],
                                  s2\<lparr>combinedRecorder :=
                                        Some \<lparr>mimeType = selectedMimeType, rec_state = Recording\<rparr>\<rparr>))))))"

text \<open>The handler \<^verbatim>\<open>ondataavailable\<close> installed on the recorder.\<close>

definition ondataavailable :: "nat \<Rightarrow> renderer_state \<Rightarrow> renderer_state" where
  "ondataavailable data_size s =
     (if 0 < data_size then s\<lparr>audioChunks := audioChunks s @ [data_size]\<rparr> else s)"

text \<open>
  What the surroundings answer during \<^verbatim>\<open>stopRecording\<close>: whether \<^verbatim>\<open>stop()\<close> raises,
  whether the \<^verbatim>\<open>stop\<close> event arrives before the five-second timeout, the blobs the
  recorder still delivers while the function waits, the file name the clock gives, the
  data URL of the blob (or the failure of the reader), and the replies of the main
  process to \<^verbatim>\<open>save-file\<close> and \<^verbatim>\<open>upload-file\<close>. Closing the audio context is taken
  to succeed.
\<close>

record stop_env =
  stop_failure :: "js_error option"
  onstop_fires :: bool
  flushed :: "nat list"
  filename :: string
  blobToDataURL :: "js_error + string"
  save_file_reply :: "js_error + save_result"
  upload_file_reply :: "js_error + bool"

text \<open>The wait for the recorder: what is logged, and the variables when the wait is over.\<close>

definition await_recorder_stop :: "stop_env \<Rightarrow> renderer_state \<Rightarrow> effect list \<times> renderer_state" where
  "await_recorder_stop env s =
     (case combinedRecorder s of
        None \<Rightarrow> ([], s)
      | Some r \<Rightarrow>
          if rec_state r = Inactive then ([], s)
          else
            (case stop_failure env of
               Some err \<Rightarrow>
                 ([RecorderStop, LogError ''stopRecording: Error stopping recorder:''],
                  foldl (\<lambda>st n. ondataavailable n st) s (flushed env))
             | None \<Rightarrow>
                 ([RecorderStop] @
                  (if onstop_fires env then []
                   else [LogError ''stopRecording: Timeout waiting for MediaRecorder to stop'']),
                  (foldl (\<lambda>st n. ondataavailable n st) s (flushed env))
                    \<lparr>combinedRecorder := Some (r\<lparr>rec_state := Inactive\<rparr>)\<rparr>)))"

text \<open>The chunks \<^verbatim>\<open>stopRecording\<close> finds when it decides whether to save.\<close>

definition chunks_at_stop :: "stop_env \<Rightarrow> renderer_state \<Rightarrow> nat list" where
  "chunks_at_stop env s = audioChunks (snd (await_recorder_stop env s))"

text \<open>The \<^verbatim>\<open>try\<close> block that saves and uploads; every exception in it is caught and logged.\<close>

definition save_and_upload :: "stop_env \<Rightarrow> nat list \<Rightarrow> effect list" where
  "save_and_upload env chunks =
     (if sum_list chunks = 0 then
        [LogError ''Blob is empty!'', LogError ''stopRecording: Error saving file:'']
      else
        (case blobToDataURL env of
           Inl err \<Rightarrow> [LogError ''stopRecording: Error saving file:'']
         | Inr audioData \<Rightarrow>
             (case save_file_reply env of
                Inl err \<Rightarrow> [Invoke ''save-file'', LogError ''stopRecording: Error saving file:'']
              | Inr result \<Rightarrow>
                  (case upload_file_reply env of
                     Inl err \<Rightarrow>
                       [Invoke ''save-file'', Invoke ''upload-file'',
                        LogError ''stopRecording: Error saving file:'']
                   | Inr ok \<Rightarrow> [Invoke ''save-file'', Invoke ''upload-file'']))))"

definition stopRecording :: "stop_env \<Rightarrow> renderer_state \<Rightarrow> effect list \<times> renderer_state" where
  "stopRecording env s =
     (if \<not> recording s then ([], s)
      else
        (case await_recorder_stop env (s\<lparr>recording := False\<rparr>) of
           (stop_effects, s1) \<Rightarrow>
             let s2 = (case audioContext s1 of
                         Some Running \<Rightarrow> s1\<lparr>audioContext := Some Closed\<rparr>
                       | _ \<Rightarrow> s1);
                 save_effects =
                   (if length (audioChunks s2) > 0 then save_and_upload env (audioChunks s2)
                    else [LogError ''stopRecording: No audio data available!''])
             in (stop_effects @ save_effects,
                 s2\<lparr>audioChunks := [], combinedRecorder := None, audioContext := None,
                    destination := None\<rparr>)))"

section \<open>Predicates and concrete inputs for the properties\<close>

definition nonempty_file :: "filesystem \<Rightarrow> string \<Rightarrow> bool" where
  "nonempty_file fs p \<longleftrightarrow> (case statSync fs p of Inl err \<Rightarrow> False | Inr n \<Rightarrow> 0 < n)"

definition plain_file :: "nat \<Rightarrow> file_entry" where
  "plain_file n = \<lparr>fsize = n, stat_throws = False, read_throws = False, unlink_throws = False\<rparr>"

definition locked_file :: "nat \<Rightarrow> file_entry" where
  "locked_file n = \<lparr>fsize = n, stat_throws = False, read_throws = False, unlink_throws = True\<rparr>"

text \<open>A raw capture of 9000 bytes and the tool, and a tool run that writes the output.\<close>

definition fs_capture :: filesystem where
  "fs_capture = [''in.webm'' \<mapsto> plain_file 9000, ''ffmpeg.exe'' \<mapsto> plain_file 1]"

definition ffmpeg_writes_output :: shell where
  "ffmpeg_writes_output cmd fs = (None, fs(''out.mp3'' \<mapsto> plain_file 4000))"

text \<open>
  A save request whose conversion succeeds, once with the temporary file left
  deletable and once with the temporary file locked when the tool returns.
\<close>

definition fs_tool :: filesystem where
  "fs_tool = [''ffmpeg.exe'' \<mapsto> plain_file 1]"

definition ffmpeg_converts :: shell where
  "ffmpeg_converts cmd fs = (None, fs(''rec/01_02_2025/a.mp3'' \<mapsto> plain_file 4000))"

definition ffmpeg_locks_input :: shell where
  "ffmpeg_locks_input cmd fs =
     (None, fs(''rec/01_02_2025/a.mp3'' \<mapsto> plain_file 4000,
               ''rec/01_02_2025/a.webm'' \<mapsto> locked_file 3))"

definition env_save :: "shell \<Rightarrow> save_env" where
  "env_save sh =
     \<lparr>OUTPUT_DIR = ''rec'', FFMPEG_PATH = ''ffmpeg.exe'', dateFolder = ''01_02_2025'',
      base64_length = (\<lambda>b. (length (filter (\<lambda>c. c \<noteq> CHR ''='') b) * 3) div 4),
      mkdir_failure = None, write_failure = None,
      exec = sh, sizeKB = (\<lambda>n. [])\<rparr>"

text \<open>
  An upload in which the destination request and the history commit succeed and the
  transfer of the bytes times out.
\<close>

definition cfg_example :: app_config where
  "cfg_example =
     \<lparr>API_UPLOAD_URL = Some ''https://api.example/up'', UPLOAD_API = JStr ''request-upload'',
      API_URL = Some ''https://api.example'', SAVE_HISTORY_API = JStr ''save-history'',
      SALE_TOKEN = JStr ''token''\<rparr>"

definition transfer_timeout :: js_error where
  "transfer_timeout = JsError (Some ''ECONNABORTED'') ''timeout of 60000ms exceeded''"

definition net_put_fails :: network where
  "net_put_fails =
     \<lparr>axios_presign = (\<lambda>c. Inr (JObj [(''code'', JNum 200),
         (''data'', JObj [(''presignUrl'', JStr ''https://store.example/put/a.mp3''),
                          (''url'', JStr ''https://cdn.example/a.mp3'')])])),
      axios_put = (\<lambda>c. Inl transfer_timeout),
      axios_history = (\<lambda>c. Inr (JObj [(''success'', JBool True)]))\<rparr>"

definition fs_recording :: filesystem where
  "fs_recording = [''rec/a.mp3'' \<mapsto> plain_file 4000]"

definition session_times :: time_params where
  "session_times = \<lparr>beginTime = 1000, endTime = 2000\<rparr>"

text \<open>Whether each source connected, and when \<^verbatim>\<open>startRecording\<close> starts a recorder.\<close>

definition micConnected :: "capture_env \<Rightarrow> bool" where
  "micConnected env = fst (connect_mic env)"

definition systemConnected :: "capture_env \<Rightarrow> bool" where
  "systemConnected env = fst (connect_system env)"

definition capture_proceeds :: "capture_env \<Rightarrow> bool" where
  "capture_proceeds env \<longleftrightarrow>
     audioContext_failure env = None \<and> (micConnected env \<or> systemConnected env) \<and>
     find (isTypeSupported env) mimeTypes \<noteq> None \<and> recorder_failure env = None"

text \<open>
  Capture surfaces: one with a microphone and no screen source, with the encodings
  given; one where no source connects. The renderer before and during a capture.
\<close>

definition env_mic_only :: "(string \<Rightarrow> bool) \<Rightarrow> capture_env" where
  "env_mic_only supported =
     \<lparr>now = 1000, audioContext_failure = None, mic_failure = None, get_sources = Inr [],
      desktop_audio_tracks = (\<lambda>i. Inr 0), isTypeSupported = supported,
      recorder_failure = None\<rparr>"

definition env_no_source :: capture_env where
  "env_no_source =
     \<lparr>now = 1000, audioContext_failure = None,
      mic_failure = Some (JsError None ''NotFoundError: Requested device not found''),
      get_sources = Inr [\<lparr>source_id = ''window:1:0'', source_name = ''Zalo''\<rparr>],
      desktop_audio_tracks = (\<lambda>i. Inr 1), isTypeSupported = (\<lambda>m. True),
      recorder_failure = None\<rparr>"

definition renderer_idle :: renderer_state where
  "renderer_idle =
     \<lparr>combinedRecorder = None, audioChunks = [], startTime = None, recording = False,
      audioContext = None, destination = None\<rparr>"

definition renderer_capturing :: "nat list \<Rightarrow> renderer_state" where
  "renderer_capturing chunks =
     \<lparr>combinedRecorder = Some \<lparr>mimeType = ''audio/webm'', rec_state = Recording\<rparr>,
      audioChunks = chunks, startTime = Some 1000, recording = True,
      audioContext = Some Running, destination = Some 1\<rparr>"

definition env_stop :: "nat list \<Rightarrow> stop_env" where
  "env_stop blobs =
     \<lparr>stop_failure = None, onstop_fires = True, flushed = blobs,
      filename = ''zalo_call_2025_02_01_10_00_00.mp3'',
      blobToDataURL = Inr ''data:audio/webm;base64,AAAA'',
      save_file_reply = Inr \<lparr>path = ''rec/01_02_2025/a.mp3'', size = ''3.91''\<rparr>,
      upload_file_reply = Inr True\<rparr>"

section \<open>Properties of the sampler and the detector\<close>

text \<open>
  Claim C2. The in-call verdict is true exactly when the sampled memory is strictly
  greater than the threshold; a sample equal to the threshold is not in call.
\<close>

theorem classify_strictly_above_threshold:
  "isInCall (checkZaloCallStatusMemory thr mem) = (thr < mem) \<and>
   \<not> isInCall (checkZaloCallStatusMemory thr thr)"
  by (simp add: checkZaloCallStatusMemory_def)

text \<open>
  Claim C6. A failed lookup gives the value zero: when the query tool reports an error
  (both samplers), when no line of the process table names the target process, when the
  memory column does not parse as an integer, when the counter output has fewer than
  three lines, and when the counter value is missing or does not parse as a number.
  Both samplers are total functions of what the query delivered: there is no path on
  which they fail their caller.
\<close>

theorem sampler_zero_on_lookup_failure:
  "checkZaloMemory (ExecError code msg) = 0 \<and>
   checkZaloCPU pf (ExecError code msg) = 0 \<and>
   (tasklist_row out1 = None \<longrightarrow> checkZaloMemory (ExecOk out1) = 0) \<and>
   (tasklist_row out2 = Some line \<and> parseInt (strip_comma_K (memUsageStr line)) None = None
      \<longrightarrow> checkZaloMemory (ExecOk out2) = 0) \<and>
   (length (typeperf_lines out3) < 3 \<longrightarrow> checkZaloCPU pf (ExecOk out3) = 0) \<and>
   (length (cpu_parts out4) < 2 \<longrightarrow> checkZaloCPU pf (ExecOk out4) = 0) \<and>
   (cpu_parts out5 = p0 # p1 # ps \<and> pf p1 = None \<longrightarrow> checkZaloCPU pf (ExecOk out5) = 0)"
proof -
  have len2: "length xs < 2 \<Longrightarrow> (case xs of p0 # p1 # ps \<Rightarrow> f p1 | _ \<Rightarrow> (0::real)) = 0"
    for xs :: "string list" and f
    by (cases xs; simp split: list.split)
  show ?thesis
    by (simp add: checkZaloMemory_def checkZaloCPU_def len2)
qed

theorem sampler_zero_on_lookup_failure_witness:
  "tasklist_row ''Zalo.exe 1 C 1 9 K'' = None \<and>
   checkZaloMemory (ExecOk ''Zalo.exe 1 C 1 9 K'') = 0 \<and>
   tasklist_row ''ZaloCall.exe 1 C 1 N/A'' = Some ''ZaloCall.exe 1 C 1 N/A'' \<and>
   parseInt (strip_comma_K (memUsageStr ''ZaloCall.exe 1 C 1 N/A'')) None = None \<and>
   checkZaloMemory (ExecOk ''ZaloCall.exe 1 C 1 N/A'') = 0 \<and>
   length (typeperf_lines ''a'') < 3 \<and>
   checkZaloCPU (\<lambda>s. None) (ExecOk ''a'') = 0 \<and>
   length (cpu_parts [CHR ''a'', CHR 0x0A, CHR ''b'', CHR 0x0A, CHR ''c'']) < 2 \<and>
   checkZaloCPU (\<lambda>s. Some 7) (ExecOk [CHR ''a'', CHR 0x0A, CHR ''b'', CHR 0x0A, CHR ''c'']) = 0 \<and>
   cpu_parts [CHR ''a'', CHR 0x0A, CHR ''b'', CHR '','', CHR ''x'', CHR 0x0A, CHR ''c''] = [''b'', ''x''] \<and>
   checkZaloCPU (\<lambda>s. None)
     (ExecOk [CHR ''a'', CHR 0x0A, CHR ''b'', CHR '','', CHR ''x'', CHR 0x0A, CHR ''c'']) = 0"
proof -
  have h1: "tasklist_row ''Zalo.exe 1 C 1 9 K'' = None"
    by code_simp
  have h2: "tasklist_row ''ZaloCall.exe 1 C 1 N/A'' = Some ''ZaloCall.exe 1 C 1 N/A''"
    by code_simp
  have h3: "parseInt (strip_comma_K (memUsageStr ''ZaloCall.exe 1 C 1 N/A'')) None = None"
    by code_simp
  have h4: "length (typeperf_lines ''a'') < 3"
    by code_simp
  have h5: "length (cpu_parts [CHR ''a'', CHR 0x0A, CHR ''b'', CHR 0x0A, CHR ''c'']) < 2"
    by code_simp
  have h6: "cpu_parts [CHR ''a'', CHR 0x0A, CHR ''b'', CHR '','', CHR ''x'', CHR 0x0A, CHR ''c'']
      = [''b'', ''x'']"
    by code_simp
  have h7: "(\<lambda>s::string. None :: real option) ''x'' = None"
    by simp
  note t = sampler_zero_on_lookup_failure
    [where ?out1.0 = "''Zalo.exe 1 C 1 9 K''" and ?out2.0 = "''ZaloCall.exe 1 C 1 N/A''"
       and line = "''ZaloCall.exe 1 C 1 N/A''"]
  have c1: "checkZaloMemory (ExecOk ''Zalo.exe 1 C 1 9 K'') = 0"
    using t h1 by blast
  have c2: "checkZaloMemory (ExecOk ''ZaloCall.exe 1 C 1 N/A'') = 0"
    using t h2 h3 by blast
  have c3: "checkZaloCPU (\<lambda>s. None) (ExecOk ''a'') = 0"
    using sampler_zero_on_lookup_failure [where ?out3.0 = "''a''" and pf = "\<lambda>s. None"] h4
    by blast
  have c4: "checkZaloCPU (\<lambda>s. Some 7) (ExecOk [CHR ''a'', CHR 0x0A, CHR ''b'', CHR 0x0A, CHR ''c'']) = 0"
    using sampler_zero_on_lookup_failure
      [where ?out4.0 = "[CHR ''a'', CHR 0x0A, CHR ''b'', CHR 0x0A, CHR ''c'']"
         and pf = "\<lambda>s. Some 7"] h5
    by blast
  have c5: "checkZaloCPU (\<lambda>s. None)
     (ExecOk [CHR ''a'', CHR 0x0A, CHR ''b'', CHR '','', CHR ''x'', CHR 0x0A, CHR ''c'']) = 0"
    using sampler_zero_on_lookup_failure
      [where ?out5.0 = "[CHR ''a'', CHR 0x0A, CHR ''b'', CHR '','', CHR ''x'', CHR 0x0A, CHR ''c'']"
         and pf = "\<lambda>s. None" and ?p0.0 = "''b''" and ?p1.0 = "''x''" and ps = "[]"] h6
    by simp
  show ?thesis
    using h1 h2 h3 h4 h5 h6 c1 c2 c3 c4 c5 by simp
qed
section \<open>Properties of the conversion stage and the save-file handler\<close>

text \<open>
  Claim C4. The conversion resolves, and then with the output path, exactly when the
  input file existed with non-zero size, the tool binary was present, the tool reported
  no error and the output file exists with non-zero size afterwards; in every other
  case it rejects with an error.
\<close>

theorem convertToMP3_success_iff:
  "(\<forall>p. fst (convertToMP3 F ex fs i out) = Inr p \<longleftrightarrow>
      p = out \<and> nonempty_file fs i \<and> existsSync fs F \<and>
      fst (ex (ffmpeg_command F i out) fs) = None \<and>
      nonempty_file (snd (ex (ffmpeg_command F i out) fs)) out) \<and>
   ((\<exists>err. fst (convertToMP3 F ex fs i out) = Inl err) \<longleftrightarrow>
      \<not> (nonempty_file fs i \<and> existsSync fs F \<and>
         fst (ex (ffmpeg_command F i out) fs) = None \<and>
         nonempty_file (snd (ex (ffmpeg_command F i out) fs)) out))"
  by (auto simp: convertToMP3_def nonempty_file_def existsSync_def statSync_def
      split: sum.splits option.splits prod.splits if_splits)

theorem convertToMP3_success_iff_witness:
  "nonempty_file fs_capture ''in.webm'' \<and> existsSync fs_capture ''ffmpeg.exe'' \<and>
   nonempty_file
     (snd (ffmpeg_writes_output (ffmpeg_command ''ffmpeg.exe'' ''in.webm'' ''out.mp3'') fs_capture))
     ''out.mp3'' \<and>
   fst (convertToMP3 ''ffmpeg.exe'' ffmpeg_writes_output fs_capture ''in.webm'' ''out.mp3'')
     = Inr ''out.mp3'' \<and>
   (\<exists>err. fst (convertToMP3 ''ffmpeg.exe'' ffmpeg_writes_output fs_capture ''in.webm'' ''in.web'')
     = Inl err)"
proof -
  have h1: "nonempty_file fs_capture ''in.webm''"
    by code_simp
  have h2: "existsSync fs_capture ''ffmpeg.exe''"
    by code_simp
  have h3: "fst (ffmpeg_writes_output c fs_capture) = None" for c
    by (simp add: ffmpeg_writes_output_def)
  have h4: "nonempty_file (snd (ffmpeg_writes_output c fs_capture)) ''out.mp3''" for c
    by (simp add: ffmpeg_writes_output_def nonempty_file_def statSync_def plain_file_def)
  have h5: "\<not> nonempty_file (snd (ffmpeg_writes_output c fs_capture)) ''in.web''" for c
    by (simp add: ffmpeg_writes_output_def nonempty_file_def statSync_def fs_capture_def)
  have c1: "fst (convertToMP3 ''ffmpeg.exe'' ffmpeg_writes_output fs_capture ''in.webm'' ''out.mp3'')
      = Inr ''out.mp3''"
    using convertToMP3_success_iff
      [of "''ffmpeg.exe''" ffmpeg_writes_output fs_capture "''in.webm''" "''out.mp3''"]
      h1 h2 h3 h4
    by blast
  have c2: "\<exists>err. fst (convertToMP3 ''ffmpeg.exe'' ffmpeg_writes_output fs_capture ''in.webm'' ''in.web'')
      = Inl err"
    using convertToMP3_success_iff
      [of "''ffmpeg.exe''" ffmpeg_writes_output fs_capture "''in.webm''" "''in.web''"] h5
    by blast
  show ?thesis
    using h1 h2 h4 c1 c2 by simp
qed

text \<open>
  Claim C9, as stated: after a save request that reaches the conversion step the
  temporary file no longer exists. It fails when \<^verbatim>\<open>unlinkSync\<close> raises on the temporary
  file: the handler catches the exception, and here it reports success with the
  temporary file still in place.
\<close>

theorem save_file_temp_survives_locked:
  "fst (save_file_prepare (env_save ffmpeg_locks_input) fs_tool ''a.mp3''
          (Some ''data:audio/webm;base64,AAAA''))
     = Inr (''rec/01_02_2025/a.webm'', ''rec/01_02_2025/a.mp3'') \<and>
   fst (save_file (env_save ffmpeg_locks_input) fs_tool ''a.mp3''
          (Some ''data:audio/webm;base64,AAAA''))
     = Inr \<lparr>path = ''rec/01_02_2025/a.mp3'', size = []\<rparr> \<and>
   existsSync
     (snd (save_file (env_save ffmpeg_locks_input) fs_tool ''a.mp3''
             (Some ''data:audio/webm;base64,AAAA'')))
     ''rec/01_02_2025/a.webm''"
  by code_simp

text \<open>
  Claim C9, amended. For a save request that reaches the conversion step, with
  \<open>fs3\<close> the file system when the conversion has settled: afterwards the temporary
  file exists exactly when it existed in \<open>fs3\<close> with \<^verbatim>\<open>unlinkSync\<close> raising on it, so it
  is gone whenever the removal itself does not fail, after a successful and after a
  failed conversion; no other path is touched by the cleanup; and a successful request
  returns the path of the final file, which exists.
\<close>

theorem save_file_removes_temp_unless_unlink_fails:
  assumes "fst (save_file_prepare env fs fname durl) = Inr (temp, mp3)"
  shows "let fs2 = snd (save_file_prepare env fs fname durl);
             fs3 = snd (convertToMP3 (FFMPEG_PATH env) (exec env) fs2 temp mp3);
             fs' = snd (save_file env fs fname durl)
         in (existsSync fs' temp \<longleftrightarrow> (\<exists>e. fs3 temp = Some e \<and> unlink_throws e)) \<and>
            (\<forall>p. p \<noteq> temp \<longrightarrow> fs' p = fs3 p) \<and>
            (\<forall>r. fst (save_file env fs fname durl) = Inr r \<longrightarrow>
                 path r = mp3 \<and> existsSync fs' mp3)"
proof -
  obtain fs2 where p: "save_file_prepare env fs fname durl = (Inr (temp, mp3), fs2)"
    using assms by (cases "save_file_prepare env fs fname durl") simp
  show ?thesis
    unfolding p
    by (auto simp: save_file_def p save_file_convert_def Let_def existsSync_def unlinkSync_def
        statSync_def split: sum.splits option.splits prod.splits if_splits)
qed

theorem save_file_removes_temp_unless_unlink_fails_witness:
  "fst (save_file_prepare (env_save ffmpeg_converts) fs_tool ''a.mp3''
          (Some ''data:audio/webm;base64,AAAA''))
     = Inr (''rec/01_02_2025/a.webm'', ''rec/01_02_2025/a.mp3'') \<and>
   \<not> existsSync
       (snd (save_file (env_save ffmpeg_converts) fs_tool ''a.mp3''
               (Some ''data:audio/webm;base64,AAAA'')))
       ''rec/01_02_2025/a.webm'' \<and>
   fst (save_file (env_save ffmpeg_converts) fs_tool ''a.mp3''
          (Some ''data:audio/webm;base64,AAAA''))
     = Inr \<lparr>path = ''rec/01_02_2025/a.mp3'', size = []\<rparr> \<and>
   existsSync
     (snd (save_file (env_save ffmpeg_converts) fs_tool ''a.mp3''
             (Some ''data:audio/webm;base64,AAAA'')))
     ''rec/01_02_2025/a.mp3''"
proof -
  let ?env = "env_save ffmpeg_converts"
  let ?url = "Some ''data:audio/webm;base64,AAAA''"
  have h: "fst (save_file_prepare ?env fs_tool ''a.mp3'' ?url)
      = Inr (''rec/01_02_2025/a.webm'', ''rec/01_02_2025/a.mp3'')"
    by code_simp
  have r: "fst (save_file ?env fs_tool ''a.mp3'' ?url)
      = Inr \<lparr>path = ''rec/01_02_2025/a.mp3'', size = []\<rparr>"
    by code_simp
  have g: "snd (convertToMP3 (FFMPEG_PATH ?env) (exec ?env)
              (snd (save_file_prepare ?env fs_tool ''a.mp3'' ?url))
              ''rec/01_02_2025/a.webm'' ''rec/01_02_2025/a.mp3'') ''rec/01_02_2025/a.webm''
      = Some (plain_file 3)"
    by code_simp
  have u: "\<not> unlink_throws (plain_file 3)"
    by (simp add: plain_file_def)
  note t = save_file_removes_temp_unless_unlink_fails [OF h]
  have a: "\<not> existsSync (snd (save_file ?env fs_tool ''a.mp3'' ?url)) ''rec/01_02_2025/a.webm''"
    using t g u by (simp add: Let_def)
  have b: "existsSync (snd (save_file ?env fs_tool ''a.mp3'' ?url)) ''rec/01_02_2025/a.mp3''"
    using t r by (simp add: Let_def)
  show ?thesis
    using h a r b by simp
qed

section \<open>Properties of the API helper and the upload-file handler\<close>




text \<open>
  Claim C1 holds for a failed history commit, and fails for a failed transfer: the
  handler drops the value of the \<^verbatim>\<open>PUT\<close> request, and \<^verbatim>\<open>callApi\<close> returns the
  exception instead of raising it. Here the transfer times out, the commit succeeds,
  and the handler removes the local file and returns \<^verbatim>\<open>true\<close>.
\<close>

theorem upload_file_deletes_after_failed_transfer:
  "callApi (axios_put net_put_fails) (Some []) (JStr ''https://store.example/put/a.mp3'') ''PUT''
      (BufferData 4000) [(''Content-Type'', JStr ''audio/mpeg'')] 60000
     = Inr (JErr transfer_timeout) \<and>
   existsSync fs_recording ''rec/a.mp3'' \<and>
   fst (upload_file cfg_example (\<lambda>t. ''T'') net_put_fails fs_recording session_times
          (Some ''rec/a.mp3'')) = Inr True \<and>
   \<not> existsSync
       (snd (upload_file cfg_example (\<lambda>t. ''T'') net_put_fails fs_recording session_times
               (Some ''rec/a.mp3'')))
       ''rec/a.mp3''"
  by code_simp

text \<open>
  What the handler does keep: unless it returns \<^verbatim>\<open>true\<close>, which it does only after
  the history commit answered with a truthy \<^verbatim>\<open>success\<close>, the file system is left as
  it was.
\<close>

lemma upload_file_keeps_file_unless_committed:
  "(case upload_file cfg iso_text net fs tp fp of (r, fs') \<Rightarrow> r = Inr True \<or> fs' = fs)"
  unfolding upload_file_def
  apply (simp only: Let_def)
  apply (split option.split, intro conjI allI impI, simp)
  apply (split if_split, intro conjI allI impI, simp)
  apply (split sum.split, intro conjI allI impI, simp)
  apply (split sum.split, intro conjI allI impI, simp)
  apply (split if_split, intro conjI allI impI, simp)
  apply (split sum.split, intro conjI allI impI, simp)
  apply (split sum.split, intro conjI allI impI, simp)
  apply (split sum.split, intro conjI allI impI, simp)
  apply (split sum.split, intro conjI allI impI, simp)
  apply (split sum.split, intro conjI allI impI, simp)
  apply (split sum.split, intro conjI allI impI, simp)
  apply (split sum.split, intro conjI allI impI, simp)
  apply (split sum.split, intro conjI allI impI, simp)
  apply (split if_split, intro conjI allI impI, simp)
  apply simp
  done



section \<open>Properties of the hot-reloadable threshold\<close>

lemma config_line_threshold:
  "fst (config_line l (t, nc)) =
     (case fst (config_line l (None, nc')) of Some v \<Rightarrow> Some v | None \<Rightarrow> t)"
  by (simp add: config_line_def Let_def split: option.split)

lemma config_lines_threshold:
  "fst (config_lines ls (t, nc)) =
     (case fst (config_lines ls (None, nc')) of Some v \<Rightarrow> Some v | None \<Rightarrow> t)"
proof (induction ls arbitrary: t nc nc')
  case Nil
  show ?case by simp
next
  case (Cons l ls)
  obtain t1 n1 where a: "config_line l (t, nc) = (t1, n1)"
    by (cases "config_line l (t, nc)")
  obtain t2 n2 where b: "config_line l (None, nc') = (t2, n2)"
    by (cases "config_line l (None, nc')")
  have r: "t1 = (case t2 of Some v \<Rightarrow> Some v | None \<Rightarrow> t)"
    using config_line_threshold [of l t nc nc'] a b by simp
  have "fst (config_lines ls (t1, n1)) =
      (case fst (config_lines ls (None, n2)) of Some v \<Rightarrow> Some v | None \<Rightarrow> t1)"
    by (rule Cons.IH)
  moreover have "fst (config_lines ls (t2, n2)) =
      (case fst (config_lines ls (None, n2)) of Some v \<Rightarrow> Some v | None \<Rightarrow> t2)"
    by (rule Cons.IH)
  ultimately show ?case
    using a b r by (simp split: option.splits)
qed

lemma loadConfigFiles_installs:
  assumes "file_threshold c = Some v"
  shows "MEMORY_CALL_THRESHOLD_KB (loadConfigFiles t (Content c) g) = v"
proof -
  have "fst (config_lines (split_lines c) (installThreshold g, installNameCode g)) = Some v"
    using assms
      config_lines_threshold [of "split_lines c" "installThreshold g" "installNameCode g" None]
    by (simp add: file_threshold_def)
  then show ?thesis
    by (auto simp add: loadConfigFiles_def Let_def split: prod.split)
qed

lemma app_run_settled:
  assumes "\<not> file_watcher a" and "\<not> load_timer_pending a"
  shows "globals (app_run t a evs) = globals a"
  using assms
proof (induction evs arbitrary: a)
  case Nil
  show ?case by (simp add: app_run_def)
next
  case (Cons e evs)
  have s: "\<not> file_watcher (app_step t a e) \<and> \<not> load_timer_pending (app_step t a e) \<and>
      globals (app_step t a e) = globals a"
    using Cons.prems by (cases e) (simp_all add: Let_def)
  have "app_run t a (e # evs) = app_run t (app_step t a e) evs"
    by (simp add: app_run_def)
  then show ?case
    using Cons.IH [of "app_step t a e"] s by simp
qed

text \<open>
  What the watchers would do, were they installed: a threshold written to the file is
  in force as soon as the write is noticed.
\<close>

lemma watcher_would_reload:
  assumes "file_threshold c = Some v"
  shows "MEMORY_CALL_THRESHOLD_KB
           (globals (app_step t (setupConfigFileWatcher a) (FileWritten c))) = v"
  using loadConfigFiles_installs [OF assms]
  by (simp add: setupConfigFileWatcher_def Let_def)

text \<open>
  Claim C7. A valid threshold written to the configuration file is to be in force
  within one reload cycle of the write, without a restart. The program does not do
  this: the watchers of \<^verbatim>\<open>setupConfigFileWatcher\<close> would reload the file, but
  \<^verbatim>\<open>app.whenReady\<close> has the call commented out, so after the one load five seconds
  after the start a new value in the file changes nothing. Here the file holds 120000
  at the start and 200000 later; a sample of 150000 is still classified as in call.
\<close>

theorem threshold_rewrite_not_observed:
  "file_threshold ''MEMORY_CALL_THRESHOLD_KB=200000'' = Some 200000 \<and>
   MEMORY_CALL_THRESHOLD_KB
     (globals (app_run None
        (whenReady (app_start None (Content ''MEMORY_CALL_THRESHOLD_KB=120000'')))
        [TimerFires, FileWritten ''MEMORY_CALL_THRESHOLD_KB=200000'', TimerFires])) = 120000 \<and>
   isInCall (checkZaloCallStatusMemory
     (MEMORY_CALL_THRESHOLD_KB
        (globals (app_run None
           (whenReady (app_start None (Content ''MEMORY_CALL_THRESHOLD_KB=120000'')))
           [TimerFires, FileWritten ''MEMORY_CALL_THRESHOLD_KB=200000'', TimerFires])))
     150000)"
  by code_simp

text \<open>
  With the watchers installed, as \<^verbatim>\<open>setupConfigFileWatcher\<close> is written, the same
  writes are observed.
\<close>

lemma threshold_rewrite_observed_with_watcher:
  "MEMORY_CALL_THRESHOLD_KB
     (globals (app_run None
        (setupConfigFileWatcher
           (whenReady (app_start None (Content ''MEMORY_CALL_THRESHOLD_KB=120000''))))
        [TimerFires, FileWritten ''MEMORY_CALL_THRESHOLD_KB=200000'', TimerFires])) = 200000"
  by code_simp

text \<open>
  What the program does instead. Until the timer armed by \<^verbatim>\<open>app.whenReady\<close> fires,
  nothing written to the file reaches the threshold.
\<close>

lemma threshold_unchanged_before_load:
  assumes "\<not> file_watcher a" and "TimerFires \<notin> set evs"
  shows "globals (app_run t a evs) = globals a"
  using assms
proof (induction evs arbitrary: a)
  case Nil
  show ?case by (simp add: app_run_def)
next
  case (Cons e evs)
  have s: "\<not> file_watcher (app_step t a e) \<and> globals (app_step t a e) = globals a"
    using Cons.prems by (cases e) (simp_all add: Let_def)
  have "app_run t a (e # evs) = app_run t (app_step t a e) evs"
    by (simp add: app_run_def)
  then show ?case
    using Cons.IH [of "app_step t a e"] Cons.prems(2) s by simp
qed

text \<open>
  A valid threshold that the file holds when that timer fires is the threshold of the
  classification from then on; as no watcher is installed, it stays in force whatever
  is written to the file afterwards.
\<close>

lemma threshold_loaded_once_after_start:
  assumes "file_threshold c = Some v" and "configFile a = Content c" and "\<not> file_watcher a"
  shows "MEMORY_CALL_THRESHOLD_KB (globals (app_step t (whenReady a) TimerFires)) = v \<and>
         (\<forall>evs mem.
            MEMORY_CALL_THRESHOLD_KB
              (globals (app_run t (app_step t (whenReady a) TimerFires) evs)) = v \<and>
            isInCall (checkZaloCallStatusMemory
              (MEMORY_CALL_THRESHOLD_KB
                 (globals (app_run t (app_step t (whenReady a) TimerFires) evs)))
              mem) = (v < mem))"
proof -
  let ?a1 = "app_step t (whenReady a) TimerFires"
  have g: "MEMORY_CALL_THRESHOLD_KB (globals ?a1) = v"
    using assms(1,2) loadConfigFiles_installs [of c v t "globals a"]
    by (simp add: whenReady_def)
  have w: "\<not> file_watcher ?a1" "\<not> load_timer_pending ?a1"
    using assms(3) by (simp_all add: whenReady_def)
  have "globals (app_run t ?a1 evs) = globals ?a1" for evs
    using app_run_settled [OF w] .
  then show ?thesis
    using g by (simp add: checkZaloCallStatusMemory_def)
qed

lemma threshold_loaded_once_after_start_example:
  "file_threshold ''MEMORY_CALL_THRESHOLD_KB=120000'' = Some 120000 \<and>
   configFile (app_start None (Content ''MEMORY_CALL_THRESHOLD_KB=120000''))
     = Content ''MEMORY_CALL_THRESHOLD_KB=120000'' \<and>
   \<not> file_watcher (app_start None (Content ''MEMORY_CALL_THRESHOLD_KB=120000'')) \<and>
   MEMORY_CALL_THRESHOLD_KB
     (globals (app_step None
        (whenReady (app_start None (Content ''MEMORY_CALL_THRESHOLD_KB=120000''))) TimerFires))
     = 120000 \<and>
   isInCall (checkZaloCallStatusMemory
     (MEMORY_CALL_THRESHOLD_KB
        (globals (app_run None
           (app_step None
              (whenReady (app_start None (Content ''MEMORY_CALL_THRESHOLD_KB=120000'')))
              TimerFires)
           [FileWritten ''MEMORY_CALL_THRESHOLD_KB=200000''])))
     150000)"
proof -
  let ?c = "''MEMORY_CALL_THRESHOLD_KB=120000''"
  have h1: "file_threshold ?c = Some 120000"
    by code_simp
  have h2: "configFile (app_start None (Content ?c)) = Content ?c"
    by (simp add: app_start_def)
  have h3: "\<not> file_watcher (app_start None (Content ?c))"
    by (simp add: app_start_def)
  let ?a1 = "app_step None (whenReady (app_start None (Content ?c))) TimerFires"
  note t = threshold_loaded_once_after_start [OF h1 h2 h3, of None]
  have a: "MEMORY_CALL_THRESHOLD_KB (globals ?a1) = 120000"
    using t by blast
  have "isInCall (checkZaloCallStatusMemory
      (MEMORY_CALL_THRESHOLD_KB
         (globals (app_run None ?a1 [FileWritten ''MEMORY_CALL_THRESHOLD_KB=200000''])))
      150000) = ((120000::int) < 150000)"
    using t by blast
  then have b: "isInCall (checkZaloCallStatusMemory
      (MEMORY_CALL_THRESHOLD_KB
         (globals (app_run None ?a1 [FileWritten ''MEMORY_CALL_THRESHOLD_KB=200000''])))
      150000)"
    by (simp del: app_step.simps)
  show ?thesis
    using h1 h2 h3 a b by blast
qed

subsection \<open>A threshold written in decimal is read back\<close>

lemma white_space_bytes:
  assumes "w \<in> set white_space"
  shows "w \<noteq> []"
    and "(of_char (hd w) :: nat) < 48 \<or> 128 \<le> (of_char (hd w) :: nat)"
    and "(of_char (last w) :: nat) < 48 \<or> 128 \<le> (of_char (last w) :: nat)"
  using assms by (auto simp: white_space_def)

lemma match_at_plain:
  assumes "48 \<le> (of_char c :: nat)" and "(of_char c :: nat) < 128"
  shows "match_at white_space (c # cs) = None"
proof -
  have "\<not> (w \<noteq> [] \<and> startsWith (c # cs) w)" if "w \<in> set white_space" for w
  proof
    assume a: "w \<noteq> [] \<and> startsWith (c # cs) w"
    then obtain x xs where w: "w = x # xs"
      by (cases w) auto
    then have "x = c"
      using a by (simp add: startsWith_def)
    then show False
      using white_space_bytes(2) [OF that] w assms by simp
  qed
  then show ?thesis
    by (simp add: match_at_def find_None_iff)
qed

lemma match_at_rev_plain:
  assumes "48 \<le> (of_char c :: nat)" and "(of_char c :: nat) < 128"
  shows "match_at (map rev white_space) (c # cs) = None"
proof -
  have "\<not> (rev w \<noteq> [] \<and> startsWith (c # cs) (rev w))" if "w \<in> set white_space" for w
  proof
    assume a: "rev w \<noteq> [] \<and> startsWith (c # cs) (rev w)"
    then obtain x xs where w: "rev w = x # xs"
      by (cases "rev w") auto
    then have "x = c"
      using a by (simp add: startsWith_def)
    moreover have "last w = x"
      using w by (metis hd_rev list.sel(1))
    ultimately show False
      using white_space_bytes(3) [OF that] assms by simp
  qed
  then show ?thesis
    by (auto simp: match_at_def find_None_iff)
qed

lemma strip_leading_none: "match_at pats s = None \<Longrightarrow> strip_leading pats s = s"
  by (subst strip_leading.simps) simp

lemma trimStart_plain:
  assumes "48 \<le> (of_char c :: nat)" and "(of_char c :: nat) < 128"
  shows "trimStart (c # cs) = c # cs"
  unfolding trimStart_def by (rule strip_leading_none) (rule match_at_plain [OF assms])

lemma trim_id:
  assumes "s \<noteq> []"
    and "48 \<le> (of_char (hd s) :: nat)" and "(of_char (hd s) :: nat) < 128"
    and "48 \<le> (of_char (last s) :: nat)" and "(of_char (last s) :: nat) < 128"
  shows "trim s = s"
proof -
  obtain c cs where s: "s = c # cs"
    using assms(1) by (cases s) auto
  have a: "trimStart s = s"
    using trimStart_plain [of c cs] assms(2,3) s by simp
  obtain d ds where r: "rev s = d # ds"
    using assms(1) by (cases "rev s") auto
  then have "d = last s"
    by (metis hd_rev list.sel(1))
  then have "match_at (map rev white_space) (d # ds) = None"
    using match_at_rev_plain [of d ds] assms(4,5) by simp
  then have "match_at (map rev white_space) (rev s) = None"
    by (simp only: r)
  then have "strip_leading (map rev white_space) (rev s) = rev s"
    by (rule strip_leading_none)
  then have b: "trimEnd s = s"
    by (simp add: trimEnd_def)
  show ?thesis
    by (simp add: trim_def a b)
qed

lemma to_double_exact: "\<bar>n\<bar> < 2 ^ 53 \<Longrightarrow> to_double n = n"
  unfolding to_double_def Let_def by (cases "n < 0") simp_all

lemma of_char_digit_char: "d < 10 \<Longrightarrow> (of_char (digit_char d) :: nat) = 48 + d"
  by (simp add: digit_char_def)

lemma digit_char_props:
  assumes "d < 10"
  shows "digit_val (digit_char d) = Some d"
    and "is_digit 10 (digit_char d)"
    and "48 \<le> (of_char (digit_char d) :: nat) \<and> (of_char (digit_char d) :: nat) < 128"
    and "digit_char d \<noteq> CHR ''=''"
    and "digit_char d \<noteq> CHR 0x0A"
    and "digit_char d \<noteq> CHR ''-''"
    and "digit_char d \<noteq> CHR ''+''"
proof -
  note n = of_char_digit_char [OF assms]
  show v: "digit_val (digit_char d) = Some d"
    using assms by (simp add: digit_val_def n Let_def)
  show "is_digit 10 (digit_char d)"
    using assms by (simp add: is_digit_def v)
  show "48 \<le> (of_char (digit_char d) :: nat) \<and> (of_char (digit_char d) :: nat) < 128"
    using assms by (simp add: n)
  have ne: "digit_char d \<noteq> c" if "(of_char c :: nat) < 48" for c
    using that n by (metis not_add_less1)
  show "digit_char d \<noteq> CHR ''=''"
  proof
    assume "digit_char d = CHR ''=''"
    then have "(of_char (digit_char d) :: nat) = of_char CHR ''=''"
      by simp
    then show False
      using assms n by simp
  qed
  show "digit_char d \<noteq> CHR 0x0A"
    by (rule ne) simp
  show "digit_char d \<noteq> CHR ''-''"
    by (rule ne) simp
  show "digit_char d \<noteq> CHR ''+''"
    by (rule ne) simp
qed

lemma show_nat_digits: "c \<in> set (show_nat n) \<Longrightarrow> \<exists>d<10. c = digit_char d"
proof (induction n rule: show_nat.induct)
  case (1 n)
  show ?case
  proof (cases "n < 10")
    case True
    then show ?thesis
      using "1.prems" by (subst (asm) show_nat.simps) auto
  next
    case False
    have "c \<in> set (show_nat (n div 10)) \<or> c = digit_char (n mod 10)"
      using "1.prems" False by (subst (asm) show_nat.simps) auto
    then show ?thesis
      using "1.IH" False by (metis mod_less_divisor zero_less_numeral)
  qed
qed

lemma show_nat_nonempty: "show_nat n \<noteq> []"
  by (subst show_nat.simps) simp

lemma digits_value_snoc:
  "digits_value r (ds @ [c]) = digits_value r ds * int r + int (the (digit_val c))"
  by (simp add: digits_value_def)

lemma digits_value_show_nat: "digits_value 10 (show_nat n) = int n"
proof (induction n rule: show_nat.induct)
  case (1 n)
  show ?case
  proof (cases "n < 10")
    case True
    then show ?thesis
      by (subst show_nat.simps) (simp add: digits_value_def digit_char_props(1))
  next
    case False
    have m: "n mod 10 < 10"
      by simp
    have "digits_value 10 (show_nat n) =
        digits_value 10 (show_nat (n div 10)) * 10 + int (n mod 10)"
      using False
      by (subst show_nat.simps) (simp add: digits_value_snoc digit_char_props(1) [OF m])
    also have "\<dots> = int (n div 10) * 10 + int (n mod 10)"
      using "1.IH" False by simp
    also have "\<dots> = int n"
      by (simp add: zdiv_int zmod_int)
    finally show ?thesis .
  qed
qed

lemma split_char_absent: "d \<notin> set s \<Longrightarrow> split_char d s = [s]"
  by (induction s) auto

lemma indexOf_first: "d \<notin> set k \<Longrightarrow> indexOf (k @ d # rest) d = Some (length k)"
  by (induction k) auto

lemma parseInt_show_nat: "parseInt (show_nat n) (Some 10) = Some (to_double (int n))"
proof -
  let ?D = "show_nat n"
  obtain c cs where D: "?D = c # cs"
    using show_nat_nonempty [of n] by (cases ?D) auto
  have dig: "\<exists>d<10. x = digit_char d" if "x \<in> set ?D" for x
    using that by (rule show_nat_digits)
  obtain d where d: "d < 10" "c = digit_char d"
    using dig [of c] D by auto
  have c: "c \<noteq> CHR ''-''" "c \<noteq> CHR ''+''"
    using digit_char_props(6,7) [OF d(1)] d(2) by simp_all
  have ts: "trimStart (c # cs) = c # cs"
    using digit_char_props(3) [OF d(1)] d(2) by (intro trimStart_plain) simp_all
  have all: "takeWhile (is_digit 10) ?D = ?D"
    using dig digit_char_props(2) by (auto intro: takeWhile_eq_all_conv [THEN iffD2])
  have p: "parse_digits 10 ?D = Some (int n)"
    using show_nat_nonempty [of n]
    by (simp add: parse_digits_def all digits_value_show_nat Let_def)
  have "parseInt (c # cs) (Some 10) = map_option to_double (parse_digits 10 (c # cs))"
    using c by (simp add: parseInt_def Let_def ts)
  then show ?thesis
    using p D by simp
qed

lemma config_line_threshold_line:
  assumes "trim l = l" and "l \<noteq> []" and "\<not> startsWith l ''#''"
    and "indexOf l CHR ''='' = Some i"
    and "trim (take i l) = ''MEMORY_CALL_THRESHOLD_KB''"
    and "parseInt (trim (drop (i + 1) l)) (Some 10) = Some v"
  shows "fst (config_line l (t, nc)) = Some v"
  using assms by (simp add: config_line_def Let_def)

text \<open>
  Every threshold \<open>n\<close>, written to the file as the line
  \<^verbatim>\<open>MEMORY_CALL_THRESHOLD_KB=n\<close> in decimal, is a valid threshold of the file: the
  double nearest to \<open>n\<close>, which is \<open>n\<close> itself below \<open>2 ^ 53\<close>.
\<close>

lemma file_threshold_of_written_value:
  "file_threshold (''MEMORY_CALL_THRESHOLD_KB='' @ show_nat n) = Some (to_double (int n))"
proof -
  define K where "K = ''MEMORY_CALL_THRESHOLD_KB''"
  define D where "D = show_nat n"
  define c where "c = K @ CHR ''='' # D"
  have K: "K \<noteq> []" "length K = 24" "CHR ''='' \<notin> set K" "CHR 0x0A \<notin> set K"
    "48 \<le> (of_char (hd K) :: nat)" "(of_char (hd K) :: nat) < 128"
    "48 \<le> (of_char (last K) :: nat)" "(of_char (last K) :: nat) < 128"
    "hd K \<noteq> CHR ''#''"
    by (simp_all add: K_def)
  have dig: "\<exists>d<10. x = digit_char d" if "x \<in> set D" for x
    using that unfolding D_def by (rule show_nat_digits)
  have ne: "D \<noteq> []"
    unfolding D_def by (rule show_nat_nonempty)
  have nl: "CHR 0x0A \<notin> set D"
  proof
    assume "CHR 0x0A \<in> set D"
    then obtain d where d: "d < 10" "CHR 0x0A = digit_char d"
      using dig by metis
    show False
      using digit_char_props(5) [OF d(1)] d(2) by simp
  qed
  have plain: "48 \<le> (of_char x :: nat) \<and> (of_char x :: nat) < 128" if "x \<in> set D" for x
    using dig [OF that] digit_char_props(3) by blast
  have lines: "split_lines c = [c]"
    using nl K(4) by (simp add: split_lines_def split_char_absent c_def)
  have c_ne: "c \<noteq> []" and hd_c: "hd c = hd K" and last_c: "last c = last D"
    using ne K(1) by (simp_all add: c_def)
  have trim_c: "trim c = c"
    using c_ne hd_c last_c K(5,6) plain [of "last D"] ne by (intro trim_id) simp_all
  have trim_D: "trim D = D"
    using ne plain [of "hd D"] plain [of "last D"] by (intro trim_id) simp_all
  have trim_K: "trim K = K"
    using K(1,5,6,7,8) by (intro trim_id)
  have idx: "indexOf c CHR ''='' = Some 24"
    using indexOf_first [OF K(3), of D] K(2) by (simp add: c_def)
  have tk: "take 24 c = K" and dr: "drop (24 + 1) c = D"
    using K(2) by (simp_all add: c_def)
  have hash: "\<not> startsWith c ''#''"
    using c_ne hd_c K(9) by (cases c) (simp_all add: startsWith_def)
  have "fst (config_line c (None, None)) = Some (to_double (int n))"
  proof (rule config_line_threshold_line [OF trim_c c_ne hash idx])
    show "trim (take 24 c) = ''MEMORY_CALL_THRESHOLD_KB''"
      using tk trim_K by (simp add: K_def)
    show "parseInt (trim (drop (24 + 1) c)) (Some 10) = Some (to_double (int n))"
      using dr trim_D parseInt_show_nat [of n] by (simp add: D_def)
  qed
  then have "file_threshold c = Some (to_double (int n))"
    by (simp add: file_threshold_def lines)
  then show ?thesis
    by (simp add: c_def K_def D_def)
qed

lemma file_threshold_of_written_safe_value:
  "n < 2 ^ 53 \<Longrightarrow>
   file_threshold (''MEMORY_CALL_THRESHOLD_KB='' @ show_nat n) = Some (int n)"
proof -
  assume "n < 2 ^ 53"
  then have "\<bar>int n\<bar> < 2 ^ 53"
    by (metis abs_of_nat of_nat_less_iff of_nat_numeral of_nat_power)
  then have "to_double (int n) = int n"
    by (rule to_double_exact)
  then show ?thesis
    using file_threshold_of_written_value [of n] by simp
qed

text \<open>
  A byte order mark or a no-break space around the line does not hide the threshold,
  and a value above \<open>2 ^ 53\<close> is stored rounded.
\<close>

lemma file_threshold_examples:
  "file_threshold (CHR 0xEF # CHR 0xBB # CHR 0xBF # ''MEMORY_CALL_THRESHOLD_KB=5000'')
     = Some 5000"
  "file_threshold (CHR 0xC2 # CHR 0xA0 # ''MEMORY_CALL_THRESHOLD_KB = 5000'' @ [CHR 0xC2, CHR 0xA0])
     = Some 5000"
  "file_threshold ''MEMORY_CALL_THRESHOLD_KB=9007199254740993'' = Some 9007199254740992"
  by code_simp+

section \<open>Properties of the audio capture pipeline\<close>

lemma audioChunks_flush:
  "audioChunks (foldl (\<lambda>st n. ondataavailable n st) t ns) = audioChunks t @ filter (\<lambda>n. 0 < n) ns"
  by (induction ns arbitrary: t) (simp_all add: ondataavailable_def)

lemma await_recorder_stop_recording_flag:
  "audioChunks (snd (await_recorder_stop env (s\<lparr>recording := b\<rparr>))) =
   audioChunks (snd (await_recorder_stop env s))"
  by (simp add: await_recorder_stop_def audioChunks_flush split: option.split)

lemma await_recorder_stop_no_invoke:
  "Invoke c \<notin> set (fst (await_recorder_stop env s))"
  by (simp add: await_recorder_stop_def split: option.split)

lemma connect_no_start:
  "RecorderStart m \<notin> set (snd (connect_mic env))"
  "RecorderStart m \<notin> set (snd (connect_system env))"
  by (simp_all add: connect_mic_def connect_system_def split: option.split sum.split)

text \<open>
  Claim C3. When a stop finds no chunk, after the recorder has flushed, it logs the
  failure and sends neither a \<^verbatim>\<open>save-file\<close> nor an \<^verbatim>\<open>upload-file\<close> request.
\<close>

theorem stop_without_chunks_skips_save_and_upload:
  assumes "recording s" and "chunks_at_stop env s = []"
  shows "LogError ''stopRecording: No audio data available!'' \<in> set (fst (stopRecording env s)) \<and>
         Invoke ''save-file'' \<notin> set (fst (stopRecording env s)) \<and>
         Invoke ''upload-file'' \<notin> set (fst (stopRecording env s))"
proof -
  obtain effs s1 where a: "await_recorder_stop env (s\<lparr>recording := False\<rparr>) = (effs, s1)"
    by (cases "await_recorder_stop env (s\<lparr>recording := False\<rparr>)")
  have c: "audioChunks s1 = []"
    using assms(2) a await_recorder_stop_recording_flag [of env False s]
    by (simp add: chunks_at_stop_def)
  have n: "Invoke ch \<notin> set effs" for ch
    using await_recorder_stop_no_invoke [of ch env "s\<lparr>recording := False\<rparr>"] a by simp
  show ?thesis
    using assms(1) a c n
    by (simp add: stopRecording_def Let_def split: option.split context_state.split)
qed

theorem stop_without_chunks_skips_save_and_upload_witness:
  "recording (renderer_capturing []) \<and>
   chunks_at_stop (env_stop [0]) (renderer_capturing []) = [] \<and>
   LogError ''stopRecording: No audio data available!''
     \<in> set (fst (stopRecording (env_stop [0]) (renderer_capturing []))) \<and>
   Invoke ''save-file'' \<notin> set (fst (stopRecording (env_stop [0]) (renderer_capturing []))) \<and>
   Invoke ''upload-file'' \<notin> set (fst (stopRecording (env_stop [0]) (renderer_capturing [])))"
proof -
  have h1: "recording (renderer_capturing [])"
    by (simp add: renderer_capturing_def)
  have h2: "chunks_at_stop (env_stop [0]) (renderer_capturing []) = []"
    by code_simp
  show ?thesis
    using h1 h2 stop_without_chunks_skips_save_and_upload [OF h1 h2] by simp
qed

text \<open>
  Claim C8. A start signal while capturing and a stop signal while not capturing
  leave every variable of the pipeline as it was and do nothing to the outside: no
  source is requested, no recorder is created, nothing is logged.
\<close>

theorem start_and_stop_are_idempotent:
  "(recording s \<longrightarrow> startRecording cenv s = ([], s)) \<and>
   (\<not> recording s \<longrightarrow> stopRecording senv s = ([], s))"
  by (simp add: startRecording_def stopRecording_def)

theorem start_and_stop_are_idempotent_witness:
  "recording (renderer_capturing [1200, 900]) \<and>
   startRecording (env_mic_only (\<lambda>m. True)) (renderer_capturing [1200, 900])
     = ([], renderer_capturing [1200, 900]) \<and>
   \<not> recording renderer_idle \<and>
   stopRecording (env_stop [700]) renderer_idle = ([], renderer_idle)"
proof -
  have h1: "recording (renderer_capturing [1200, 900])"
    by (simp add: renderer_capturing_def)
  have h2: "\<not> recording renderer_idle"
    by (simp add: renderer_idle_def)
  show ?thesis
    using h1 h2
      start_and_stop_are_idempotent
        [of "renderer_capturing [1200, 900]" "env_mic_only (\<lambda>m. True)"]
      start_and_stop_are_idempotent [of renderer_idle _ "env_stop [700]"]
    by simp
qed

text \<open>
  Claim C5, as stated: a start is aborted only if both sources failed to connect. It
  fails when the runtime supports none of the candidate encodings: the microphone is
  connected, and the start is aborted all the same.
\<close>

theorem start_aborts_without_supported_encoding:
  "micConnected (env_mic_only (\<lambda>m. False)) \<and>
   startRecording (env_mic_only (\<lambda>m. False)) renderer_idle =
     ([GetUserMediaMic, Invoke ''get-sources'', LogError ''No supported MIME type found!''],
      \<lparr>combinedRecorder = None, audioChunks = [], startTime = Some 1000, recording = False,
       audioContext = Some Running, destination = Some 1\<rparr>)"
  by code_simp

text \<open>
  Claim C5, amended. For a start while not capturing, capture proceeds (the recorder
  is started and the pipeline stays in the recording state) exactly when the audio
  context was created, at least one of the two sources connected, one of the candidate
  encodings is supported and the recorder was created and started; otherwise the
  start is aborted. In particular it is aborted whenever both sources failed.
\<close>

theorem start_proceeds_iff:
  assumes "\<not> recording s"
  shows "(recording (snd (startRecording env s)) \<longleftrightarrow> capture_proceeds env) \<and>
         ((\<exists>m. RecorderStart m \<in> set (fst (startRecording env s))) \<longleftrightarrow> capture_proceeds env) \<and>
         (\<not> micConnected env \<and> \<not> systemConnected env \<longrightarrow>
            \<not> recording (snd (startRecording env s)) \<and>
            (\<forall>m. RecorderStart m \<notin> set (fst (startRecording env s))))"
proof -
  obtain mc me where m: "connect_mic env = (mc, me)"
    by (cases "connect_mic env")
  obtain sc se where c: "connect_system env = (sc, se)"
    by (cases "connect_system env")
  have n: "RecorderStart x \<notin> set me" "RecorderStart x \<notin> set se" for x
    using connect_no_start [of x env] m c by simp_all
  show ?thesis
    using assms m c n
    by (auto simp: startRecording_def capture_proceeds_def micConnected_def systemConnected_def
        Let_def split: option.splits)
qed

theorem start_proceeds_iff_witness:
  "\<not> recording renderer_idle \<and>
   capture_proceeds (env_mic_only (\<lambda>m. m = ''audio/webm'')) \<and>
   recording (snd (startRecording (env_mic_only (\<lambda>m. m = ''audio/webm'')) renderer_idle)) \<and>
   \<not> micConnected env_no_source \<and> \<not> systemConnected env_no_source \<and>
   \<not> recording (snd (startRecording env_no_source renderer_idle))"
proof -
  have h1: "\<not> recording renderer_idle"
    by (simp add: renderer_idle_def)
  have h2: "capture_proceeds (env_mic_only (\<lambda>m. m = ''audio/webm''))"
    by code_simp
  have h3: "\<not> micConnected env_no_source"
    by code_simp
  have h4: "\<not> systemConnected env_no_source"
    by code_simp
  show ?thesis
    using h1 h2 h3 h4
      start_proceeds_iff [OF h1, of "env_mic_only (\<lambda>m. m = ''audio/webm'')"]
      start_proceeds_iff [OF h1, of env_no_source]
    by blast
qed

end
